theory Spec2Isabelle
  imports Complex_Main "HOL-Library.AList" "HOL-Library.Char_ord" "HOL-Library.List_Lexorder"
begin

section \<open>Resource types (pkg/api/types.go)\<close>

text \<open>
  Go structs are records, Go string-typed enumerations (\<open>Phase\<close>, \<open>ActionType\<close>,
  \<open>DriftType\<close>, \<open>Severity\<close>, ...) stay strings with their constants as abbreviations,
  since any string is a value of such a type.  A Go map is an association list whose keys
  are distinct (\<open>wf_map\<close>); the order of the list is the order in which a \<open>range\<close> loop
  happens to visit the map.  A slice is a list.  Pointers to resources held in a state are
  taken to be non-nil, and a nil map or slice is identified with the empty one.
  \<open>time.Time\<close> is an instant, in nanoseconds.
\<close>

type_synonym Time = int

datatype dyn =
    DNil
  | DBool bool
  | DInt int
  | DFloat real
  | DString string
  | DList "dyn list"
  | DMap "(string \<times> dyn) list"

type_synonym Phase = string

abbreviation PhasePending :: Phase where "PhasePending \<equiv> ''Pending''"
abbreviation PhaseProvisioning :: Phase where "PhaseProvisioning \<equiv> ''Provisioning''"
abbreviation PhaseRunning :: Phase where "PhaseRunning \<equiv> ''Running''"
abbreviation PhaseUpdating :: Phase where "PhaseUpdating \<equiv> ''Updating''"
abbreviation PhaseDeleting :: Phase where "PhaseDeleting \<equiv> ''Deleting''"
abbreviation PhaseFailed :: Phase where "PhaseFailed \<equiv> ''Failed''"

record ResourceMetadata =
  Name :: string
  Namespace :: string
  Labels :: "(string \<times> string) list"
  Annotations :: "(string \<times> string) list"
  CreatedAt :: Time
  UpdatedAt :: Time

record Condition =
  cond_Type :: string
  cond_Status :: bool
  LastTransitionTime :: Time
  Reason :: string
  cond_Message :: string

record ResourceStatus =
  Phase :: Phase
  Conditions :: "Condition list"
  Message :: string
  Properties :: "(string \<times> string) list"

record 'spec Resource =
  ID :: string
  Metadata :: ResourceMetadata
  Spec :: 'spec
  Status :: ResourceStatus

record Subnet =
  subnet_Name :: string
  CIDR :: string
  AvailabilityZone :: string
  Public :: bool

record NetworkSpec =
  VPCCIDR :: string
  AvailabilityZones :: "string list"
  Subnets :: "Subnet list"
  NATGateway :: bool
  PrivateCluster :: bool

record IdentitySpec =
  ident_Type :: string
  ServiceAccounts :: "string list"
  RoleARN :: string

record ControlPlaneSpec =
  cp_Type :: string
  Version :: string
  cp_InstanceType :: string
  Count :: int
  HA :: bool
  Identity :: "IdentitySpec option"
  cp_Config :: "(string \<times> dyn) list"

record SpotConfig =
  Enabled :: bool
  MaxPrice :: real

record Taint =
  Key :: string
  Value :: string
  Effect :: string

record WorkerPoolSpec =
  pool_Name :: string
  pool_InstanceType :: string
  MinSize :: int
  MaxSize :: int
  DesiredSize :: int
  Spot :: "SpotConfig option"
  pool_Labels :: "(string \<times> string) list"
  Taints :: "Taint list"
  pool_Config :: "(string \<times> dyn) list"

record ClusterSpec =
  Provider :: string
  Region :: string
  Network :: NetworkSpec
  ControlPlane :: ControlPlaneSpec
  WorkerPools :: "WorkerPoolSpec list"
  Tags :: "(string \<times> string) list"
  Config :: "(string \<times> dyn) list"

type_synonym Cluster = "ClusterSpec Resource"
type_synonym NodePool = "WorkerPoolSpec Resource"

record ResourceID =
  rid_Provider :: string
  rid_Kind :: string
  rid_ID :: string
  rid_Name :: string

type_synonym EventType = string

abbreviation EventCreated :: EventType where "EventCreated \<equiv> ''Created''"
abbreviation EventUpdated :: EventType where "EventUpdated \<equiv> ''Updated''"
abbreviation EventDeleted :: EventType where "EventDeleted \<equiv> ''Deleted''"
abbreviation EventFailed :: EventType where "EventFailed \<equiv> ''Failed''"

text \<open>
  The values the code stores behind \<open>interface{}\<close> in action parameters and event
  payloads: a cluster spec, a worker pool spec, or any other dynamic value.
\<close>

datatype param =
    PClusterSpec ClusterSpec
  | PWorkerPoolSpec WorkerPoolSpec
  | PDyn dyn

record Event =
  ev_ID :: string
  ev_Timestamp :: Time
  ev_Type :: EventType
  ev_Resource :: ResourceID
  Actor :: string
  Payload :: "(string \<times> param) list"

subsection \<open>Zero values\<close>

definition zero_ResourceMetadata :: ResourceMetadata where
  "zero_ResourceMetadata =
     \<lparr>Name = '''', Namespace = '''', Labels = [], Annotations = [],
      CreatedAt = 0, UpdatedAt = 0\<rparr>"

definition zero_ResourceStatus :: ResourceStatus where
  "zero_ResourceStatus = \<lparr>Phase = '''', Conditions = [], Message = '''', Properties = []\<rparr>"

definition zero_NetworkSpec :: NetworkSpec where
  "zero_NetworkSpec =
     \<lparr>VPCCIDR = '''', AvailabilityZones = [], Subnets = [], NATGateway = False,
      PrivateCluster = False\<rparr>"

definition zero_ControlPlaneSpec :: ControlPlaneSpec where
  "zero_ControlPlaneSpec =
     \<lparr>cp_Type = '''', Version = '''', cp_InstanceType = '''', Count = 0, HA = False,
      Identity = None, cp_Config = []\<rparr>"

definition zero_WorkerPoolSpec :: WorkerPoolSpec where
  "zero_WorkerPoolSpec =
     \<lparr>pool_Name = '''', pool_InstanceType = '''', MinSize = 0, MaxSize = 0, DesiredSize = 0,
      Spot = None, pool_Labels = [], Taints = [], pool_Config = []\<rparr>"

definition zero_ClusterSpec :: ClusterSpec where
  "zero_ClusterSpec =
     \<lparr>Provider = '''', Region = '''', Network = zero_NetworkSpec,
      ControlPlane = zero_ControlPlaneSpec, WorkerPools = [], Tags = [], Config = []\<rparr>"

definition zero_Cluster :: Cluster where
  "zero_Cluster =
     \<lparr>ID = '''', Metadata = zero_ResourceMetadata, Spec = zero_ClusterSpec,
      Status = zero_ResourceStatus\<rparr>"

definition zero_NodePool :: NodePool where
  "zero_NodePool =
     \<lparr>ID = '''', Metadata = zero_ResourceMetadata, Spec = zero_WorkerPoolSpec,
      Status = zero_ResourceStatus\<rparr>"

section \<open>Engine types (pkg/engine/provider.go)\<close>

record State =
  Clusters :: "(string \<times> Cluster) list"
  NodePools :: "(string \<times> NodePool) list"
  Networks :: "(string \<times> dyn) list"
  state_Metadata :: "(string \<times> dyn) list"

definition zero_State :: State where
  "zero_State = \<lparr>Clusters = [], NodePools = [], Networks = [], state_Metadata = []\<rparr>"

definition wf_map :: "(string \<times> 'v) list \<Rightarrow> bool" where
  "wf_map m = distinct (map fst m)"

definition wf_State :: "State \<Rightarrow> bool" where
  "wf_State s = (wf_map (Clusters s) \<and> wf_map (NodePools s))"

type_synonym ActionType = string

abbreviation ActionCreate :: ActionType where "ActionCreate \<equiv> ''create''"
abbreviation ActionUpdate :: ActionType where "ActionUpdate \<equiv> ''update''"
abbreviation ActionDelete :: ActionType where "ActionDelete \<equiv> ''delete''"
abbreviation ActionNoop :: ActionType where "ActionNoop \<equiv> ''noop''"

record Action =
  Type :: ActionType
  Resource :: ResourceID
  Parameters :: "(string \<times> param) list"

record Plan =
  Actions :: "Action list"

text \<open>
  Go errors: the engine's sentinel, a formatted error, a formatted error that wraps its
  cause (\<open>%w\<close>), and an error raised by a collaborator outside the modelled code (the
  operating system, the JSON library, a provider, a store).
\<close>

datatype error =
    ErrProviderNotFound
  | Errorf string
  | Wrapf string error
  | ExternalError string

section \<open>Time and text formatting (the standard library, as documented)\<close>

text \<open>
  \<open>time.Time\<close> values are instants, counted in nanoseconds from the zero \<open>Time\<close>
  (January 1, year 1, 00:00:00 UTC), so that the zero value of the Go type is \<open>0\<close>.
  \<open>time.Duration\<close> is a signed 64-bit count of nanoseconds and \<open>Time.Sub\<close> saturates
  at its bounds.  \<open>After\<close> is the order of the instants.
\<close>

type_synonym Duration = int

definition time_Sub :: "Time \<Rightarrow> Time \<Rightarrow> Duration" where
  "time_Sub t u =
     (if t - u > 2 ^ 63 - 1 then 2 ^ 63 - 1
      else if t - u < - (2 ^ 63) then - (2 ^ 63)
      else t - u)"

text \<open>
  The civil date of an instant: the days since the zero \<open>Time\<close> are converted to year,
  month and day of the proleptic Gregorian calendar (the day count is shifted to start on
  March 1 of year 0, and split into 400-year eras).  The zone is taken to be UTC.
\<close>

definition civil_year_month_day :: "int \<Rightarrow> int \<times> int \<times> int" where
  "civil_year_month_day days =
     (let z = days + 306;
          era = z div 146097;
          doe = z - era * 146097;
          yoe = (doe - doe div 1460 + doe div 36524 - doe div 146096) div 365;
          y = yoe + era * 400;
          doy = doe - (365 * yoe + yoe div 4 - yoe div 100);
          mp = (5 * doy + 2) div 153;
          d = doy - (153 * mp + 2) div 5 + 1;
          m = (if mp < 10 then mp + 3 else mp - 9)
      in (if m \<le> 2 then y + 1 else y, m, d))"

definition time_Year :: "Time \<Rightarrow> int" where
  "time_Year t = fst (civil_year_month_day (t div 1000000000 div 86400))"

definition digit :: "nat \<Rightarrow> char" where
  "digit n = (''0123456789abcdef'') ! (n mod 16)"

fun pad_decimal :: "nat \<Rightarrow> nat \<Rightarrow> string" where
  "pad_decimal 0 n = []"
| "pad_decimal (Suc w) n = pad_decimal w (n div 10) @ [digit (n mod 10)]"

text \<open>\<open>strconv.Itoa\<close> on a natural number, and \<open>fmt.Sprintf("%x", n)\<close> for \<open>n \<ge> 0\<close>.\<close>

function decimal :: "nat \<Rightarrow> string" where
  "decimal n = (if n < 10 then [digit n] else decimal (n div 10) @ [digit (n mod 10)])"
  by pat_completeness auto
termination
  by (relation "measure (\<lambda>n. n)") auto

declare decimal.simps [simp del]

function hex :: "nat \<Rightarrow> string" where
  "hex n = (if n < 16 then [digit n] else hex (n div 16) @ [digit (n mod 16)])"
  by pat_completeness auto
termination
  by (relation "measure (\<lambda>n. n)") auto

declare hex.simps [simp del]

text \<open>
  The layouts the code and the JSON encoder use, for the years 0 to 9999:
  \<open>Format("20060102-150405")\<close>, which prints no fraction of a second, and RFC 3339 with
  nanoseconds, which prints the fraction without its trailing zeros, and nothing for a
  whole second.
\<close>

definition Format_20060102_150405 :: "Time \<Rightarrow> string" where
  "Format_20060102_150405 t =
     (let secs = t div 1000000000;
          (y, m, d) = civil_year_month_day (secs div 86400);
          sod = secs mod 86400
      in pad_decimal 4 (nat y) @ pad_decimal 2 (nat m) @ pad_decimal 2 (nat d) @ ''-'' @
         pad_decimal 2 (nat (sod div 3600)) @ pad_decimal 2 (nat (sod mod 3600 div 60)) @
         pad_decimal 2 (nat (sod mod 60)))"

definition Format_RFC3339Nano :: "Time \<Rightarrow> string" where
  "Format_RFC3339Nano t =
     (let secs = t div 1000000000;
          nanos = t mod 1000000000;
          (y, m, d) = civil_year_month_day (secs div 86400);
          sod = secs mod 86400
      in pad_decimal 4 (nat y) @ ''-'' @ pad_decimal 2 (nat m) @ ''-'' @ pad_decimal 2 (nat d) @
         ''T'' @ pad_decimal 2 (nat (sod div 3600)) @ '':'' @
         pad_decimal 2 (nat (sod mod 3600 div 60)) @ '':'' @ pad_decimal 2 (nat (sod mod 60)) @
         (if nanos = 0 then []
          else ''.'' @ rev (dropWhile (\<lambda>c. c = CHR ''0'') (rev (pad_decimal 9 (nat nanos))))) @
         ''Z'')"

section \<open>Engine (pkg/engine/provider.go)\<close>

text \<open>
  The collaborators of the engine are Go interfaces.  Each is modelled by the state it
  holds and by the errors its calls return; the collaborators themselves are taken to be
  non-nil.

  \<^item> A \<open>CloudProvider\<close> has a name and a query for the live state; the drift detector reads
    the result of \<open>Reconcile\<close> as a state (\<open>actual.Clusters\<close>), and the model gives the
    query that type.  No other method of a provider is called by the modelled code.
  \<^item> A \<open>StateManager\<close> holds the persisted state, the error, if any, that \<open>GetState\<close> or
    \<open>SaveState\<close> returns, and the calls made on its transactions, in order.
  \<^item> An \<open>EventStore\<close> holds the recorded events and tells which event it refuses to
    record, with which error.
\<close>

record CloudProvider =
  prov_Name :: string
  Reconcile :: "State \<Rightarrow> State \<Rightarrow> error + State"

datatype tx_call = BeginTransaction | Commit | Rollback

record StateManager =
  stored :: State
  GetState_err :: "error option"
  SaveState_err :: "error option"
  Commit_err :: "error option"
  tx_calls :: "tx_call list"

definition GetState :: "StateManager \<Rightarrow> error + State" where
  "GetState sm = (case GetState_err sm of Some e \<Rightarrow> Inl e | None \<Rightarrow> Inr (stored sm))"

definition SaveState :: "StateManager \<Rightarrow> State \<Rightarrow> error + StateManager" where
  "SaveState sm s =
     (case SaveState_err sm of Some e \<Rightarrow> Inl e | None \<Rightarrow> Inr (sm\<lparr>stored := s\<rparr>))"

definition call_tx :: "tx_call \<Rightarrow> StateManager \<Rightarrow> StateManager" where
  "call_tx c sm = sm\<lparr>tx_calls := tx_calls sm @ [c]\<rparr>"

record EventStore =
  recorded :: "Event list"
  RecordEvent_err :: "Event \<Rightarrow> error option"

definition RecordEvent :: "EventStore \<Rightarrow> Event \<Rightarrow> error + EventStore" where
  "RecordEvent es event =
     (case RecordEvent_err es event of
        Some e \<Rightarrow> Inl e
      | None \<Rightarrow> Inr (es\<lparr>recorded := recorded es @ [event]\<rparr>))"

text \<open>
  The engine.  \<open>executed\<close> is the trace of the actions that \<open>executeAction\<close> dispatched
  to \<open>executeCreate\<close>, \<open>executeUpdate\<close> or \<open>executeDelete\<close> (or accepted as a no-op); the
  three are stubs that return nil, so the trace is their only footprint.
\<close>

record Engine =
  providers :: "(string \<times> CloudProvider) list"
  state :: StateManager
  events :: EventStore
  executed :: "Action list"

definition NewEngine :: "StateManager \<Rightarrow> EventStore \<Rightarrow> Engine" where
  "NewEngine st ev = \<lparr>providers = [], state = st, events = ev, executed = []\<rparr>"

definition RegisterProvider :: "Engine \<Rightarrow> CloudProvider \<Rightarrow> Engine" where
  "RegisterProvider e provider =
     e\<lparr>providers := AList.update (prov_Name provider) provider (providers e)\<rparr>"

definition GetProvider :: "Engine \<Rightarrow> string \<Rightarrow> CloudProvider option" where
  "GetProvider e name = map_of (providers e) name"

definition executeCreate :: "Engine \<Rightarrow> CloudProvider \<Rightarrow> Action \<Rightarrow> error option" where
  "executeCreate e provider action = None"

definition executeUpdate :: "Engine \<Rightarrow> CloudProvider \<Rightarrow> Action \<Rightarrow> error option" where
  "executeUpdate e provider action = None"

definition executeDelete :: "Engine \<Rightarrow> CloudProvider \<Rightarrow> Action \<Rightarrow> error option" where
  "executeDelete e provider action = None"

definition executeAction :: "Engine \<Rightarrow> Action \<Rightarrow> error option \<times> Engine" where
  "executeAction e action =
     (case GetProvider e (rid_Provider (Resource action)) of
        None \<Rightarrow> (Some ErrProviderNotFound, e)
      | Some provider \<Rightarrow>
          (let e' = e\<lparr>executed := executed e @ [action]\<rparr>
           in if Type action = ActionCreate then (executeCreate e provider action, e')
              else if Type action = ActionUpdate then (executeUpdate e provider action, e')
              else if Type action = ActionDelete then (executeDelete e provider action, e')
              else if Type action = ActionNoop then (None, e')
              else (None, e')))"

definition toEventType :: "ActionType \<Rightarrow> EventType" where
  "toEventType actionType =
     (if actionType = ActionCreate then EventCreated
      else if actionType = ActionUpdate then EventUpdated
      else if actionType = ActionDelete then EventDeleted
      else '''')"

text \<open>
  The event \<open>Apply\<close> builds for an action: type, resource and payload are set, the other
  fields keep their zero values.
\<close>

definition eventOf :: "Action \<Rightarrow> Event" where
  "eventOf action =
     \<lparr>ev_ID = '''', ev_Timestamp = 0, ev_Type = toEventType (Type action),
      ev_Resource = Resource action, Actor = '''', Payload = Parameters action\<rparr>"

fun applyLoop :: "Engine \<Rightarrow> Action list \<Rightarrow> error option \<times> Engine" where
  "applyLoop e [] = (None, e)"
| "applyLoop e (action # rest) =
     (case executeAction e action of
        (Some err, e1) \<Rightarrow> (Some err, e1)
      | (None, e1) \<Rightarrow>
          (case RecordEvent (events e1) (eventOf action) of
             Inl err \<Rightarrow> (Some err, e1)
           | Inr es \<Rightarrow> applyLoop (e1\<lparr>events := es\<rparr>) rest))"

text \<open>
  \<open>Apply\<close>: the transaction is begun, \<open>Rollback\<close> is deferred and so runs on every way
  out, after \<open>Commit\<close> when the loop came through; its own result is dropped.
\<close>

definition Apply :: "Engine \<Rightarrow> Plan \<Rightarrow> error option \<times> Engine" where
  "Apply e plan =
     (let e0 = e\<lparr>state := call_tx BeginTransaction (state e)\<rparr>
      in case applyLoop e0 (Actions plan) of
           (Some err, e1) \<Rightarrow> (Some err, e1\<lparr>state := call_tx Rollback (state e1)\<rparr>)
         | (None, e1) \<Rightarrow>
             (let e2 = e1\<lparr>state := call_tx Commit (state e1)\<rparr>
              in (Commit_err (state e2), e2\<lparr>state := call_tx Rollback (state e2)\<rparr>)))"

text \<open>
  What goes wrong with one action in an engine: the provider lookup first, then the write
  of its event.  \<open>appliedPrefix\<close> is the part of a plan before the first action with which
  something goes wrong, \<open>firstFailing\<close> is that action.
\<close>

definition actionError :: "Engine \<Rightarrow> Action \<Rightarrow> error option" where
  "actionError e action =
     (case GetProvider e (rid_Provider (Resource action)) of
        None \<Rightarrow> Some ErrProviderNotFound
      | Some provider \<Rightarrow> RecordEvent_err (events e) (eventOf action))"

definition appliedPrefix :: "Engine \<Rightarrow> Action list \<Rightarrow> Action list" where
  "appliedPrefix e acts = takeWhile (\<lambda>a. actionError e a = None) acts"

definition firstFailing :: "Engine \<Rightarrow> Action list \<Rightarrow> Action option" where
  "firstFailing e acts =
     (case dropWhile (\<lambda>a. actionError e a = None) acts of [] \<Rightarrow> None | a # _ \<Rightarrow> Some a)"

section \<open>Planner (pkg/planner/planner.go)\<close>

definition needsUpdate :: "Cluster \<Rightarrow> Cluster \<Rightarrow> bool" where
  "needsUpdate desired actual =
     (Version (ControlPlane (Spec desired)) \<noteq> Version (ControlPlane (Spec actual)))"

text \<open>The four \<open>range\<close> loops of \<open>GeneratePlan\<close>, each appending to the plan's actions.\<close>

fun clustersToCreate :: "(string \<times> Cluster) list \<Rightarrow> State \<Rightarrow> Action list \<Rightarrow> Action list" where
  "clustersToCreate [] actual acts = acts"
| "clustersToCreate ((i, cluster) # rest) actual acts =
     clustersToCreate rest actual
       (case map_of (Clusters actual) i of
          None \<Rightarrow>
            acts @ [\<lparr>Type = ActionCreate,
                     Resource = \<lparr>rid_Provider = Provider (Spec cluster), rid_Kind = ''Cluster'',
                                 rid_ID = i, rid_Name = Name (Metadata cluster)\<rparr>,
                     Parameters = [(''spec'', PClusterSpec (Spec cluster))]\<rparr>]
        | Some _ \<Rightarrow> acts)"

fun clustersToUpdate :: "(string \<times> Cluster) list \<Rightarrow> State \<Rightarrow> Action list \<Rightarrow> Action list" where
  "clustersToUpdate [] actual acts = acts"
| "clustersToUpdate ((i, desiredCluster) # rest) actual acts =
     clustersToUpdate rest actual
       (case map_of (Clusters actual) i of
          Some actualCluster \<Rightarrow>
            if needsUpdate desiredCluster actualCluster
            then acts @ [\<lparr>Type = ActionUpdate,
                          Resource = \<lparr>rid_Provider = Provider (Spec desiredCluster),
                                      rid_Kind = ''Cluster'', rid_ID = i,
                                      rid_Name = Name (Metadata desiredCluster)\<rparr>,
                          Parameters = [(''spec'', PClusterSpec (Spec desiredCluster))]\<rparr>]
            else acts
        | None \<Rightarrow> acts)"

fun clustersToDelete :: "(string \<times> Cluster) list \<Rightarrow> State \<Rightarrow> Action list \<Rightarrow> Action list" where
  "clustersToDelete [] desired acts = acts"
| "clustersToDelete ((i, cluster) # rest) desired acts =
     clustersToDelete rest desired
       (case map_of (Clusters desired) i of
          None \<Rightarrow>
            acts @ [\<lparr>Type = ActionDelete,
                     Resource = \<lparr>rid_Provider = Provider (Spec cluster), rid_Kind = ''Cluster'',
                                 rid_ID = i, rid_Name = Name (Metadata cluster)\<rparr>,
                     Parameters = []\<rparr>]
        | Some _ \<Rightarrow> acts)"

fun nodePoolsToCreate :: "(string \<times> NodePool) list \<Rightarrow> State \<Rightarrow> Action list \<Rightarrow> Action list" where
  "nodePoolsToCreate [] actual acts = acts"
| "nodePoolsToCreate ((i, pool) # rest) actual acts =
     nodePoolsToCreate rest actual
       (case map_of (NodePools actual) i of
          None \<Rightarrow>
            acts @ [\<lparr>Type = ActionCreate,
                     Resource = \<lparr>rid_Provider = '''', rid_Kind = ''NodePool'',
                                 rid_ID = i, rid_Name = Name (Metadata pool)\<rparr>,
                     Parameters = [(''spec'', PWorkerPoolSpec (Spec pool))]\<rparr>]
        | Some _ \<Rightarrow> acts)"

definition GeneratePlan :: "State \<Rightarrow> State \<Rightarrow> Plan \<times> error option" where
  "GeneratePlan desired actual =
     (let acts0 = [];
          acts1 = clustersToCreate (Clusters desired) actual acts0;
          acts2 = clustersToUpdate (Clusters desired) actual acts1;
          acts3 = clustersToDelete (Clusters actual) desired acts2;
          acts4 = nodePoolsToCreate (NodePools desired) actual acts3
      in (\<lparr>Actions = acts4\<rparr>, None))"

text \<open>The action each loop appends for a map entry, named for use in the properties.\<close>

definition clusterAction :: "ActionType \<Rightarrow> (string \<times> Cluster) \<Rightarrow> Action" where
  "clusterAction t e =
     \<lparr>Type = t,
      Resource = \<lparr>rid_Provider = Provider (Spec (snd e)), rid_Kind = ''Cluster'',
                  rid_ID = fst e, rid_Name = Name (Metadata (snd e))\<rparr>,
      Parameters = (if t = ActionDelete then [] else [(''spec'', PClusterSpec (Spec (snd e)))])\<rparr>"

definition nodePoolAction :: "(string \<times> NodePool) \<Rightarrow> Action" where
  "nodePoolAction e =
     \<lparr>Type = ActionCreate,
      Resource = \<lparr>rid_Provider = '''', rid_Kind = ''NodePool'',
                  rid_ID = fst e, rid_Name = Name (Metadata (snd e))\<rparr>,
      Parameters = [(''spec'', PWorkerPoolSpec (Spec (snd e)))]\<rparr>"

section \<open>JSON encoding of states (encoding/json, as documented)\<close>

text \<open>
  \<open>json.Marshal\<close> is not code of the repository.  The encoder below renders a state the
  way Go 1.21 documents it: struct fields in declaration order under their \<open>json\<close> tag
  (the Go field name without a tag), \<open>omitempty\<close> fields left out when empty, map entries
  sorted by key, no white space, strings quoted and escaped (with the HTML-safe escapes),
  times in RFC 3339 with nanoseconds, a nil pointer or interface as \<open>null\<close>.  Its limits:
  a nil map or slice is rendered like an empty one, strings are taken to be valid UTF-8,
  floating-point numbers are formatted by the parameter \<open>F\<close>, and the only error is that
  of a time whose year is outside 0 to 9999.
\<close>

abbreviation dquote :: char where "dquote \<equiv> CHR 0x22"
abbreviation backslash :: char where "backslash \<equiv> CHR 0x5C"

definition escape_char :: "char \<Rightarrow> string" where
  "escape_char c =
     (if c = dquote \<or> c = backslash then [backslash, c]
      else if c = CHR 0x0A then [backslash, CHR ''n'']
      else if c = CHR 0x0D then [backslash, CHR ''r'']
      else if c = CHR 0x09 then [backslash, CHR ''t'']
      else if (of_char c :: nat) < 32 \<or> c = CHR ''<'' \<or> c = CHR ''>'' \<or> c = CHR ''&''
      then [backslash, CHR ''u'', CHR ''0'', CHR ''0'',
            digit (of_char c div 16), digit (of_char c mod 16)]
      else [c])"

fun json_escape :: "string \<Rightarrow> string" where
  "json_escape (a # b # c # rest) =
     (if a = CHR 0xE2 \<and> b = CHR 0x80 \<and> (c = CHR 0xA8 \<or> c = CHR 0xA9)
      then [backslash, CHR ''u'', CHR ''2'', CHR ''0'', CHR ''2'',
            (if c = CHR 0xA8 then CHR ''8'' else CHR ''9'')] @ json_escape rest
      else escape_char a @ json_escape (b # c # rest))"
| "json_escape (a # rest) = escape_char a @ json_escape rest"
| "json_escape [] = []"

definition json_string :: "string \<Rightarrow> string" where
  "json_string s = [dquote] @ json_escape s @ [dquote]"

definition json_int :: "int \<Rightarrow> string" where
  "json_int i = (if i < 0 then ''-'' @ decimal (nat (- i)) else decimal (nat i))"

definition json_bool :: "bool \<Rightarrow> string" where
  "json_bool b = (if b then ''true'' else ''false'')"

definition json_time :: "Time \<Rightarrow> string" where
  "json_time t = [dquote] @ Format_RFC3339Nano t @ [dquote]"

fun join_comma :: "string list \<Rightarrow> string" where
  "join_comma [] = []"
| "join_comma [x] = x"
| "join_comma (x # y # rest) = x @ '','' @ join_comma (y # rest)"

text \<open>
  An object is the list of its members; \<open>member\<close> is a field that is always written,
  \<open>omitempty\<close> one that is left out when its value is empty.
\<close>

definition member :: "string \<Rightarrow> string \<Rightarrow> string list" where
  "member name v = [json_string name @ '':'' @ v]"

definition omitempty :: "bool \<Rightarrow> string \<Rightarrow> string \<Rightarrow> string list" where
  "omitempty isEmpty name v = (if isEmpty then [] else member name v)"

definition json_object :: "string list \<Rightarrow> string" where
  "json_object members = ''{'' @ join_comma members @ ''}''"

definition json_array :: "string list \<Rightarrow> string" where
  "json_array elems = ''['' @ join_comma elems @ '']''"

definition json_map :: "('v \<Rightarrow> string) \<Rightarrow> (string \<times> 'v) list \<Rightarrow> string" where
  "json_map enc m =
     json_object (concat (map (\<lambda>kv. member (fst kv) (enc (snd kv))) (sort_key fst m)))"

primrec json_dyn :: "(real \<Rightarrow> string) \<Rightarrow> dyn \<Rightarrow> string" where
  "json_dyn F DNil = ''null''"
| "json_dyn F (DBool b) = json_bool b"
| "json_dyn F (DInt i) = json_int i"
| "json_dyn F (DFloat x) = F x"
| "json_dyn F (DString s) = json_string s"
| "json_dyn F (DList xs) = json_array (map (json_dyn F) xs)"
| "json_dyn F (DMap m) =
     json_object (concat (map (\<lambda>kv. member (fst kv) (snd kv))
                            (sort_key fst (map (map_prod (\<lambda>k. k) (json_dyn F)) m))))"

definition json_strings :: "string list \<Rightarrow> string" where
  "json_strings xs = json_array (map json_string xs)"

definition json_ResourceMetadata :: "ResourceMetadata \<Rightarrow> string" where
  "json_ResourceMetadata x =
     json_object
       (member ''name'' (json_string (Name x)) @
        omitempty (Namespace x = []) ''namespace'' (json_string (Namespace x)) @
        omitempty (Labels x = []) ''labels'' (json_map json_string (Labels x)) @
        omitempty (Annotations x = []) ''annotations'' (json_map json_string (Annotations x)) @
        member ''createdAt'' (json_time (CreatedAt x)) @
        member ''updatedAt'' (json_time (UpdatedAt x)))"

definition json_Condition :: "Condition \<Rightarrow> string" where
  "json_Condition x =
     json_object
       (member ''type'' (json_string (cond_Type x)) @
        member ''status'' (json_bool (cond_Status x)) @
        member ''lastTransitionTime'' (json_time (LastTransitionTime x)) @
        omitempty (Reason x = []) ''reason'' (json_string (Reason x)) @
        omitempty (cond_Message x = []) ''message'' (json_string (cond_Message x)))"

definition json_ResourceStatus :: "ResourceStatus \<Rightarrow> string" where
  "json_ResourceStatus x =
     json_object
       (member ''phase'' (json_string (Phase x)) @
        omitempty (Conditions x = []) ''conditions''
          (json_array (map json_Condition (Conditions x))) @
        omitempty (Message x = []) ''message'' (json_string (Message x)) @
        omitempty (Properties x = []) ''properties'' (json_map json_string (Properties x)))"

definition json_Subnet :: "Subnet \<Rightarrow> string" where
  "json_Subnet x =
     json_object
       (member ''name'' (json_string (subnet_Name x)) @
        member ''cidr'' (json_string (CIDR x)) @
        member ''availabilityZone'' (json_string (AvailabilityZone x)) @
        member ''public'' (json_bool (Public x)))"

definition json_NetworkSpec :: "NetworkSpec \<Rightarrow> string" where
  "json_NetworkSpec x =
     json_object
       (member ''vpcCidr'' (json_string (VPCCIDR x)) @
        member ''availabilityZones'' (json_strings (AvailabilityZones x)) @
        omitempty (Subnets x = []) ''subnets'' (json_array (map json_Subnet (Subnets x))) @
        member ''natGateway'' (json_bool (NATGateway x)) @
        member ''privateCluster'' (json_bool (PrivateCluster x)))"

definition json_IdentitySpec :: "IdentitySpec \<Rightarrow> string" where
  "json_IdentitySpec x =
     json_object
       (member ''type'' (json_string (ident_Type x)) @
        omitempty (ServiceAccounts x = []) ''serviceAccounts'' (json_strings (ServiceAccounts x)) @
        omitempty (RoleARN x = []) ''roleArn'' (json_string (RoleARN x)))"

definition json_ControlPlaneSpec :: "(real \<Rightarrow> string) \<Rightarrow> ControlPlaneSpec \<Rightarrow> string" where
  "json_ControlPlaneSpec F x =
     json_object
       (member ''type'' (json_string (cp_Type x)) @
        member ''version'' (json_string (Version x)) @
        omitempty (cp_InstanceType x = []) ''instanceType'' (json_string (cp_InstanceType x)) @
        omitempty (Count x = 0) ''count'' (json_int (Count x)) @
        member ''ha'' (json_bool (HA x)) @
        (case Identity x of
           None \<Rightarrow> []
         | Some i \<Rightarrow> member ''identity'' (json_IdentitySpec i)) @
        omitempty (cp_Config x = []) ''config'' (json_map (json_dyn F) (cp_Config x)))"

definition json_SpotConfig :: "(real \<Rightarrow> string) \<Rightarrow> SpotConfig \<Rightarrow> string" where
  "json_SpotConfig F x =
     json_object
       (member ''enabled'' (json_bool (Enabled x)) @
        omitempty (MaxPrice x = 0) ''maxPrice'' (F (MaxPrice x)))"

definition json_Taint :: "Taint \<Rightarrow> string" where
  "json_Taint x =
     json_object
       (member ''key'' (json_string (Key x)) @
        member ''value'' (json_string (Value x)) @
        member ''effect'' (json_string (Effect x)))"

definition json_WorkerPoolSpec :: "(real \<Rightarrow> string) \<Rightarrow> WorkerPoolSpec \<Rightarrow> string" where
  "json_WorkerPoolSpec F x =
     json_object
       (member ''name'' (json_string (pool_Name x)) @
        member ''instanceType'' (json_string (pool_InstanceType x)) @
        member ''minSize'' (json_int (MinSize x)) @
        member ''maxSize'' (json_int (MaxSize x)) @
        omitempty (DesiredSize x = 0) ''desiredSize'' (json_int (DesiredSize x)) @
        (case Spot x of
           None \<Rightarrow> []
         | Some s \<Rightarrow> member ''spot'' (json_SpotConfig F s)) @
        omitempty (pool_Labels x = []) ''labels'' (json_map json_string (pool_Labels x)) @
        omitempty (Taints x = []) ''taints'' (json_array (map json_Taint (Taints x))) @
        omitempty (pool_Config x = []) ''config'' (json_map (json_dyn F) (pool_Config x)))"

definition json_ClusterSpec :: "(real \<Rightarrow> string) \<Rightarrow> ClusterSpec \<Rightarrow> string" where
  "json_ClusterSpec F x =
     json_object
       (member ''provider'' (json_string (Provider x)) @
        member ''region'' (json_string (Region x)) @
        member ''network'' (json_NetworkSpec (Network x)) @
        member ''controlPlane'' (json_ControlPlaneSpec F (ControlPlane x)) @
        member ''workerPools'' (json_array (map (json_WorkerPoolSpec F) (WorkerPools x))) @
        omitempty (Tags x = []) ''tags'' (json_map json_string (Tags x)) @
        omitempty (Config x = []) ''config'' (json_map (json_dyn F) (Config x)))"

definition json_Resource :: "('spec \<Rightarrow> string) \<Rightarrow> 'spec Resource \<Rightarrow> string" where
  "json_Resource enc x =
     json_object
       (member ''id'' (json_string (ID x)) @
        member ''metadata'' (json_ResourceMetadata (Metadata x)) @
        member ''spec'' (enc (Spec x)) @
        member ''status'' (json_ResourceStatus (Status x)))"

definition json_State :: "(real \<Rightarrow> string) \<Rightarrow> State \<Rightarrow> string" where
  "json_State F s =
     json_object
       (member ''Clusters'' (json_map (json_Resource (json_ClusterSpec F)) (Clusters s)) @
        member ''NodePools'' (json_map (json_Resource (json_WorkerPoolSpec F)) (NodePools s)) @
        member ''Networks'' (json_map (json_dyn F) (Networks s)) @
        member ''Metadata'' (json_map (json_dyn F) (state_Metadata s)))"

text \<open>
  The times of a state, and \<open>json.Marshal\<close> on a state: the error of the first time that
  cannot be rendered, else the text.
\<close>

definition times_Resource :: "'spec Resource \<Rightarrow> Time list" where
  "times_Resource x =
     [CreatedAt (Metadata x), UpdatedAt (Metadata x)] @
     map LastTransitionTime (Conditions (Status x))"

definition times_State :: "State \<Rightarrow> Time list" where
  "times_State s =
     concat (map (\<lambda>kv. times_Resource (snd kv)) (Clusters s)) @
     concat (map (\<lambda>kv. times_Resource (snd kv)) (NodePools s))"

definition time_marshalable :: "Time \<Rightarrow> bool" where
  "time_marshalable t = (0 \<le> time_Year t \<and> time_Year t \<le> 9999)"

definition json_Marshal_State :: "(real \<Rightarrow> string) \<Rightarrow> State \<Rightarrow> error + string" where
  "json_Marshal_State F s =
     (if list_all time_marshalable (times_State s) then Inr (json_State F s)
      else Inl (ExternalError ''Time.MarshalJSON: year outside of range [0,9999]''))"

section \<open>Snapshot manager (pkg/snapshot/manager.go)\<close>

subsection \<open>Types\<close>

type_synonym TriggerReason = string

abbreviation TriggerManual :: TriggerReason where "TriggerManual \<equiv> ''manual''"
abbreviation TriggerPreUpgrade :: TriggerReason where "TriggerPreUpgrade \<equiv> ''pre_upgrade''"
abbreviation TriggerPreDelete :: TriggerReason where "TriggerPreDelete \<equiv> ''pre_delete''"
abbreviation TriggerScheduled :: TriggerReason where "TriggerScheduled \<equiv> ''scheduled''"
abbreviation TriggerPreApply :: TriggerReason where "TriggerPreApply \<equiv> ''pre_apply''"
abbreviation TriggerDriftRemediate :: TriggerReason where "TriggerDriftRemediate \<equiv> ''drift_remediate''"

record SnapshotMetadata =
  meta_Version :: string
  CreatedBy :: string
  meta_TriggerReason :: TriggerReason
  ClusterCount :: int
  NodePoolCount :: int
  meta_Tags :: "(string \<times> string) list"

record Snapshot =
  snap_ID :: string
  snap_CreatedAt :: Time
  Description :: string
  snap_State :: State
  snap_Metadata :: SnapshotMetadata
  Checksum :: string

record SnapshotInfo =
  info_ID :: string
  info_CreatedAt :: Time
  info_Description :: string
  info_TriggerReason :: TriggerReason
  info_ClusterCount :: int
  info_NodePoolCount :: int
  SizeBytes :: int

record RetentionPolicy =
  MaxAge :: Duration
  MaxCount :: int

type_synonym ChangeAction = string

abbreviation ActionAdd :: ChangeAction where "ActionAdd \<equiv> ''add''"
abbreviation ActionModify :: ChangeAction where "ActionModify \<equiv> ''modify''"
abbreviation ActionRemove :: ChangeAction where "ActionRemove \<equiv> ''remove''"

record RestoreChange =
  chg_Action :: ChangeAction
  chg_Resource :: ResourceID
  Before :: "param option"
  After :: "param option"

record RestoreResult =
  res_SnapshotID :: string
  BackupID :: string
  RestoredAt :: Time
  DryRun :: bool
  Success :: bool
  Changes :: "RestoreChange list"

subsection \<open>Collaborators: the JSON library and the snapshot directory\<close>

text \<open>
  \<open>encoding/json\<close> is not code of the repository: the calls the manager makes are the
  fields of a record, over the type \<open>'b\<close> of file contents.  \<open>len b\<close> is the number of
  bytes of a file content.
\<close>

record 'b JSON =
  Marshal_State :: "State \<Rightarrow> error + string"
  Marshal_ClusterSpec :: "ClusterSpec \<Rightarrow> error + string"
  Marshal_WorkerPoolSpec :: "WorkerPoolSpec \<Rightarrow> error + string"
  MarshalIndent_Snapshot :: "Snapshot \<Rightarrow> error + 'b"
  Unmarshal_Snapshot :: "'b \<Rightarrow> error + Snapshot"
  len :: "'b \<Rightarrow> nat"

text \<open>
  The snapshot directory: file names with their contents.  \<open>os.ReadDir\<close> lists the
  entries sorted by file name, \<open>os.WriteFile\<close> creates or truncates and overwrites,
  \<open>os.ReadFile\<close> and \<open>os.Remove\<close> fail on a name that does not exist.  A directory
  marked \<open>readonly\<close> refuses writes and removals, one marked \<open>unreadable\<close> cannot be
  listed.  File names are plain names, without path separators.
\<close>

record 'b Dir =
  files :: "(string \<times> 'b) list"
  readonly :: bool
  unreadable :: bool

definition os_ReadDir :: "'b Dir \<Rightarrow> error + (string \<times> 'b) list" where
  "os_ReadDir d =
     (if unreadable d then Inl (ExternalError ''permission denied'')
      else Inr (sort_key fst (files d)))"

definition os_ReadFile :: "'b Dir \<Rightarrow> string \<Rightarrow> error + 'b" where
  "os_ReadFile d name =
     (case map_of (files d) name of
        None \<Rightarrow> Inl (ExternalError ''no such file or directory'')
      | Some data \<Rightarrow> Inr data)"

definition os_WriteFile :: "'b Dir \<Rightarrow> string \<Rightarrow> 'b \<Rightarrow> error + 'b Dir" where
  "os_WriteFile d name data =
     (if readonly d then Inl (ExternalError ''permission denied'')
      else Inr (d\<lparr>files := AList.update name data (files d)\<rparr>))"

definition os_Remove :: "'b Dir \<Rightarrow> string \<Rightarrow> error + 'b Dir" where
  "os_Remove d name =
     (if readonly d then Inl (ExternalError ''permission denied'')
      else case map_of (files d) name of
        None \<Rightarrow> Inl (ExternalError ''no such file or directory'')
      | Some _ \<Rightarrow> Inr (d\<lparr>files := AList.delete name (files d)\<rparr>))"

text \<open>
  \<open>filepath.Ext\<close>: the suffix of a file name from its last dot, empty without a dot.
\<close>

definition filepath_Ext :: "string \<Rightarrow> string" where
  "filepath_Ext name =
     (if CHR ''.'' \<in> set name
      then CHR ''.'' # rev (takeWhile (\<lambda>c. c \<noteq> CHR ''.'') (rev name))
      else [])"

record 'b Manager =
  snapshotDir :: "'b Dir"
  mgr_state :: StateManager

subsection \<open>Operations\<close>

text \<open>
  Every operation takes the JSON library, the readings of the clock it makes (one \<open>Time\<close>
  argument for each call of \<open>time.Now()\<close>, in the order of the calls) and the manager, and
  returns its Go results together with the manager after the call.
\<close>

definition generateSnapshotID :: "Time \<Rightarrow> string" where
  "generateSnapshotID now = ''snapshot-'' @ Format_20060102_150405 now"

definition calculateChecksum :: "'b JSON \<Rightarrow> State \<Rightarrow> string" where
  "calculateChecksum J st =
     (let data = (case Marshal_State J st of Inl _ \<Rightarrow> [] | Inr d \<Rightarrow> d)
      in hex (length data))"

definition saveSnapshot :: "'b JSON \<Rightarrow> Snapshot \<Rightarrow> 'b Manager \<Rightarrow> error + 'b Manager" where
  "saveSnapshot J snapshot m =
     (case MarshalIndent_Snapshot J snapshot of
        Inl err \<Rightarrow> Inl (Wrapf ''failed to marshal snapshot'' err)
      | Inr data \<Rightarrow>
          (case os_WriteFile (snapshotDir m) (snap_ID snapshot @ ''.json'') data of
             Inl err \<Rightarrow> Inl (Wrapf ''failed to write snapshot file'' err)
           | Inr d \<Rightarrow> Inr (m\<lparr>snapshotDir := d\<rparr>)))"

definition CreateSnapshot ::
  "'b JSON \<Rightarrow> Time \<Rightarrow> Time \<Rightarrow> string \<Rightarrow> TriggerReason \<Rightarrow> 'b Manager
     \<Rightarrow> (error + Snapshot) \<times> 'b Manager" where
  "CreateSnapshot J nowID nowCreated description reason m =
     (case GetState (mgr_state m) of
        Inl err \<Rightarrow> (Inl (Wrapf ''failed to get current state'' err), m)
      | Inr currentState \<Rightarrow>
          (let snapshot0 =
                 \<lparr>snap_ID = generateSnapshotID nowID,
                  snap_CreatedAt = nowCreated,
                  Description = description,
                  snap_State = currentState,
                  snap_Metadata =
                    \<lparr>meta_Version = ''1.0'', CreatedBy = ''provctl'',
                     meta_TriggerReason = reason,
                     ClusterCount = int (length (Clusters currentState)),
                     NodePoolCount = int (length (NodePools currentState)),
                     meta_Tags = []\<rparr>,
                  Checksum = ''''\<rparr>;
               snapshot = snapshot0\<lparr>Checksum := calculateChecksum J (snap_State snapshot0)\<rparr>
           in case saveSnapshot J snapshot m of
                Inl err \<Rightarrow> (Inl (Wrapf ''failed to save snapshot'' err), m)
              | Inr m' \<Rightarrow> (Inr snapshot, m')))"

definition LoadSnapshot :: "'b JSON \<Rightarrow> 'b Manager \<Rightarrow> string \<Rightarrow> error + Snapshot" where
  "LoadSnapshot J m snapshotID =
     (case os_ReadFile (snapshotDir m) (snapshotID @ ''.json'') of
        Inl err \<Rightarrow> Inl (Wrapf ''failed to read snapshot file'' err)
      | Inr data \<Rightarrow>
          (case Unmarshal_Snapshot J data of
             Inl err \<Rightarrow> Inl (Wrapf ''failed to unmarshal snapshot'' err)
           | Inr snapshot \<Rightarrow> Inr snapshot))"

definition DeleteSnapshot :: "'b Manager \<Rightarrow> string \<Rightarrow> error + 'b Manager" where
  "DeleteSnapshot m snapshotID =
     (case os_Remove (snapshotDir m) (snapshotID @ ''.json'') of
        Inl err \<Rightarrow> Inl (Wrapf ''failed to delete snapshot'' err)
      | Inr d \<Rightarrow> Inr (m\<lparr>snapshotDir := d\<rparr>))"

text \<open>
  The loop of \<open>ListSnapshots\<close> over the directory entries.  \<open>sort.Slice\<close> then orders the
  result by creation time, newest first (an entry moves in front of another one unless
  that one was created strictly after it); among equal times the order of \<open>sort.Slice\<close> is
  unspecified, and the model keeps the order of the directory listing.
\<close>

fun listLoop :: "'b JSON \<Rightarrow> 'b Manager \<Rightarrow> (string \<times> 'b) list \<Rightarrow> SnapshotInfo list \<Rightarrow> SnapshotInfo list" where
  "listLoop J m [] snapshots = snapshots"
| "listLoop J m ((name, content) # rest) snapshots =
     (if filepath_Ext name \<noteq> ''.json'' then listLoop J m rest snapshots
      else
        (let snapshotID = take (length name - 5) name
         in case LoadSnapshot J m snapshotID of
              Inl err \<Rightarrow> listLoop J m rest snapshots
            | Inr snapshot \<Rightarrow>
                listLoop J m rest
                  (snapshots @
                     [\<lparr>info_ID = snap_ID snapshot,
                       info_CreatedAt = snap_CreatedAt snapshot,
                       info_Description = Description snapshot,
                       info_TriggerReason = meta_TriggerReason (snap_Metadata snapshot),
                       info_ClusterCount = ClusterCount (snap_Metadata snapshot),
                       info_NodePoolCount = NodePoolCount (snap_Metadata snapshot),
                       SizeBytes = int (len J content)\<rparr>])))"

definition sort_newest_first :: "SnapshotInfo list \<Rightarrow> SnapshotInfo list" where
  "sort_newest_first snapshots = sort_key (\<lambda>s. - info_CreatedAt s) snapshots"

definition ListSnapshots :: "'b JSON \<Rightarrow> 'b Manager \<Rightarrow> error + SnapshotInfo list" where
  "ListSnapshots J m =
     (case os_ReadDir (snapshotDir m) of
        Inl err \<Rightarrow> Inl (Wrapf ''failed to read snapshot directory'' err)
      | Inr entries \<Rightarrow> Inr (sort_newest_first (listLoop J m entries [])))"

fun pruneLoop ::
  "RetentionPolicy \<Rightarrow> Time \<Rightarrow> SnapshotInfo list \<Rightarrow> SnapshotInfo list \<Rightarrow> string list \<Rightarrow> 'b Manager
     \<Rightarrow> (string list \<times> error option) \<times> 'b Manager" where
  "pruneLoop policy now snapshots [] deleted m = ((deleted, None), m)"
| "pruneLoop policy now snapshots (snapshot # rest) deleted m =
     (let shouldDelete0 = False;
          shouldDelete1 =
            (if MaxAge policy > 0 \<and> time_Sub now (info_CreatedAt snapshot) > MaxAge policy
             then True else shouldDelete0);
          shouldDelete =
            (if MaxCount policy > 0 \<and>
                int (length snapshots) - int (length deleted) > MaxCount policy
             then True else shouldDelete1)
      in if shouldDelete
         then (case DeleteSnapshot m (info_ID snapshot) of
                 Inl err \<Rightarrow> ((deleted, Some err), m)
               | Inr m' \<Rightarrow> pruneLoop policy now snapshots rest (deleted @ [info_ID snapshot]) m')
         else pruneLoop policy now snapshots rest deleted m)"

definition PruneSnapshots ::
  "'b JSON \<Rightarrow> Time \<Rightarrow> RetentionPolicy \<Rightarrow> 'b Manager
     \<Rightarrow> (string list \<times> error option) \<times> 'b Manager" where
  "PruneSnapshots J now policy m =
     (case ListSnapshots J m of
        Inl err \<Rightarrow> (([], Some err), m)
      | Inr snapshots \<Rightarrow> pruneLoop policy now snapshots snapshots [] m)"

subsection \<open>Restore\<close>

definition clustersEqual :: "'b JSON \<Rightarrow> Cluster \<Rightarrow> Cluster \<Rightarrow> bool" where
  "clustersEqual J a b =
     (let aJSON = (case Marshal_ClusterSpec J (Spec a) of Inl _ \<Rightarrow> [] | Inr x \<Rightarrow> x);
          bJSON = (case Marshal_ClusterSpec J (Spec b) of Inl _ \<Rightarrow> [] | Inr x \<Rightarrow> x)
      in aJSON = bJSON)"

definition nodePoolsEqual :: "'b JSON \<Rightarrow> NodePool \<Rightarrow> NodePool \<Rightarrow> bool" where
  "nodePoolsEqual J a b =
     (let aJSON = (case Marshal_WorkerPoolSpec J (Spec a) of Inl _ \<Rightarrow> [] | Inr x \<Rightarrow> x);
          bJSON = (case Marshal_WorkerPoolSpec J (Spec b) of Inl _ \<Rightarrow> [] | Inr x \<Rightarrow> x)
      in aJSON = bJSON)"

text \<open>The four loops of \<open>calculateRestoreChanges\<close>.\<close>

fun clustersAddModify ::
  "'b JSON \<Rightarrow> (string \<times> Cluster) list \<Rightarrow> State \<Rightarrow> RestoreChange list \<Rightarrow> RestoreChange list" where
  "clustersAddModify J [] current changes = changes"
| "clustersAddModify J ((i, snapshotCluster) # rest) current changes =
     clustersAddModify J rest current
       (case map_of (Clusters current) i of
          Some currentCluster \<Rightarrow>
            if \<not> clustersEqual J snapshotCluster currentCluster
            then changes @
                   [\<lparr>chg_Action = ActionModify,
                     chg_Resource = \<lparr>rid_Provider = '''', rid_Kind = ''Cluster'', rid_ID = i,
                                     rid_Name = Name (Metadata snapshotCluster)\<rparr>,
                     Before = Some (PClusterSpec (Spec currentCluster)),
                     After = Some (PClusterSpec (Spec snapshotCluster))\<rparr>]
            else changes
        | None \<Rightarrow>
            changes @
              [\<lparr>chg_Action = ActionAdd,
                chg_Resource = \<lparr>rid_Provider = '''', rid_Kind = ''Cluster'', rid_ID = i,
                                rid_Name = Name (Metadata snapshotCluster)\<rparr>,
                Before = None,
                After = Some (PClusterSpec (Spec snapshotCluster))\<rparr>])"

fun clustersRemove ::
  "(string \<times> Cluster) list \<Rightarrow> State \<Rightarrow> RestoreChange list \<Rightarrow> RestoreChange list" where
  "clustersRemove [] snapshot changes = changes"
| "clustersRemove ((i, currentCluster) # rest) snapshot changes =
     clustersRemove rest snapshot
       (case map_of (Clusters snapshot) i of
          None \<Rightarrow>
            changes @
              [\<lparr>chg_Action = ActionRemove,
                chg_Resource = \<lparr>rid_Provider = '''', rid_Kind = ''Cluster'', rid_ID = i,
                                rid_Name = Name (Metadata currentCluster)\<rparr>,
                Before = Some (PClusterSpec (Spec currentCluster)),
                After = None\<rparr>]
        | Some _ \<Rightarrow> changes)"

fun nodePoolsAddModify ::
  "'b JSON \<Rightarrow> (string \<times> NodePool) list \<Rightarrow> State \<Rightarrow> RestoreChange list \<Rightarrow> RestoreChange list" where
  "nodePoolsAddModify J [] current changes = changes"
| "nodePoolsAddModify J ((i, snapshotPool) # rest) current changes =
     nodePoolsAddModify J rest current
       (case map_of (NodePools current) i of
          Some currentPool \<Rightarrow>
            if \<not> nodePoolsEqual J snapshotPool currentPool
            then changes @
                   [\<lparr>chg_Action = ActionModify,
                     chg_Resource = \<lparr>rid_Provider = '''', rid_Kind = ''NodePool'', rid_ID = i,
                                     rid_Name = Name (Metadata snapshotPool)\<rparr>,
                     Before = Some (PWorkerPoolSpec (Spec currentPool)),
                     After = Some (PWorkerPoolSpec (Spec snapshotPool))\<rparr>]
            else changes
        | None \<Rightarrow>
            changes @
              [\<lparr>chg_Action = ActionAdd,
                chg_Resource = \<lparr>rid_Provider = '''', rid_Kind = ''NodePool'', rid_ID = i,
                                rid_Name = Name (Metadata snapshotPool)\<rparr>,
                Before = None,
                After = Some (PWorkerPoolSpec (Spec snapshotPool))\<rparr>])"

fun nodePoolsRemove ::
  "(string \<times> NodePool) list \<Rightarrow> State \<Rightarrow> RestoreChange list \<Rightarrow> RestoreChange list" where
  "nodePoolsRemove [] snapshot changes = changes"
| "nodePoolsRemove ((i, currentPool) # rest) snapshot changes =
     nodePoolsRemove rest snapshot
       (case map_of (NodePools snapshot) i of
          None \<Rightarrow>
            changes @
              [\<lparr>chg_Action = ActionRemove,
                chg_Resource = \<lparr>rid_Provider = '''', rid_Kind = ''NodePool'', rid_ID = i,
                                rid_Name = Name (Metadata currentPool)\<rparr>,
                Before = Some (PWorkerPoolSpec (Spec currentPool)),
                After = None\<rparr>]
        | Some _ \<Rightarrow> changes)"

definition calculateRestoreChanges :: "'b JSON \<Rightarrow> State \<Rightarrow> State \<Rightarrow> RestoreChange list" where
  "calculateRestoreChanges J snapshot current =
     (let changes0 = [];
          changes1 = clustersAddModify J (Clusters snapshot) current changes0;
          changes2 = clustersRemove (Clusters current) snapshot changes1;
          changes3 = nodePoolsAddModify J (NodePools snapshot) current changes2;
          changes4 = nodePoolsRemove (NodePools current) snapshot changes3
      in changes4)"

definition RestoreSnapshot ::
  "'b JSON \<Rightarrow> Time \<Rightarrow> Time \<Rightarrow> Time \<Rightarrow> 'b Manager \<Rightarrow> string \<Rightarrow> bool
     \<Rightarrow> (error + RestoreResult) \<times> 'b Manager" where
  "RestoreSnapshot J nowRestored nowID nowCreated m snapshotID dryRun =
     (case LoadSnapshot J m snapshotID of
        Inl err \<Rightarrow> (Inl (Wrapf ''failed to load snapshot'' err), m)
      | Inr snapshot \<Rightarrow>
          if calculateChecksum J (snap_State snapshot) \<noteq> Checksum snapshot
          then (Inl (Errorf ''snapshot checksum mismatch - data may be corrupted''), m)
          else
            (let result0 =
                   \<lparr>res_SnapshotID = snapshotID, BackupID = '''', RestoredAt = nowRestored,
                    DryRun = dryRun, Success = False, Changes = []\<rparr>
             in case GetState (mgr_state m) of
                  Inl err \<Rightarrow> (Inl (Wrapf ''failed to get current state'' err), m)
                | Inr currentState \<Rightarrow>
                    (let result1 =
                           result0\<lparr>Changes :=
                             calculateRestoreChanges J (snap_State snapshot) currentState\<rparr>
                     in if \<not> dryRun
                        then
                          (case CreateSnapshot J nowID nowCreated ''Pre-restore backup''
                                  TriggerManual m of
                             (Inl err, m1) \<Rightarrow> (Inl (Wrapf ''failed to create backup'' err), m1)
                           | (Inr backup, m1) \<Rightarrow>
                               (let result2 = result1\<lparr>BackupID := snap_ID backup\<rparr>
                                in case SaveState (mgr_state m1) (snap_State snapshot) of
                                     Inl err \<Rightarrow>
                                       (Inl (Wrapf ''failed to restore state'' err), m1)
                                   | Inr sm \<Rightarrow>
                                       (Inr (result2\<lparr>Success := True\<rparr>),
                                        m1\<lparr>mgr_state := sm\<rparr>)))
                        else (Inr (result1\<lparr>Success := False\<rparr>), m))))"

subsection \<open>A JSON library for examples\<close>

text \<open>
  A file of the snapshot directory, for the examples: either the JSON document of a
  snapshot, held decoded, or something that does not decode to a snapshot.  \<open>docJSON\<close> is
  the JSON library on such files: encoding a snapshot and decoding the result gives the
  snapshot back; states and specs are encoded to text by the encoder of the section
  above.  The sizes of the files are the parameter \<open>sz\<close>.
\<close>

datatype doc = SnapshotFile Snapshot | OtherFile string

definition docJSON :: "(real \<Rightarrow> string) \<Rightarrow> (doc \<Rightarrow> nat) \<Rightarrow> doc JSON" where
  "docJSON F sz =
     \<lparr>Marshal_State = json_Marshal_State F,
      Marshal_ClusterSpec = (\<lambda>s. Inr (json_ClusterSpec F s)),
      Marshal_WorkerPoolSpec = (\<lambda>s. Inr (json_WorkerPoolSpec F s)),
      MarshalIndent_Snapshot = (\<lambda>s. Inr (SnapshotFile s)),
      Unmarshal_Snapshot =
        (\<lambda>b. case b of
               SnapshotFile s \<Rightarrow> Inr s
             | OtherFile _ \<Rightarrow> Inl (ExternalError ''invalid character'')),
      len = sz\<rparr>"

text \<open>
  Whether the JSON library gives a snapshot back from the encoding of it.
\<close>

definition roundtrips :: "'b JSON \<Rightarrow> Snapshot \<Rightarrow> bool" where
  "roundtrips J snapshot =
     (case MarshalIndent_Snapshot J snapshot of
        Inl err \<Rightarrow> False
      | Inr data \<Rightarrow> Unmarshal_Snapshot J data = Inr snapshot)"

subsection \<open>What decoding returns\<close>

text \<open>
  \<open>json.Unmarshal\<close> stores a JSON number that it decodes into an \<open>interface{}\<close> as a
  \<open>float64\<close>, whatever the Go type of the number that was encoded; a number decoded into
  a field of type \<open>int\<close> stays an integer.  \<open>decoded_Snapshot\<close> is the snapshot that
  decoding returns from the text written for a snapshot, by this rule: the values behind
  \<open>interface{}\<close> (the networks and the metadata of the state, the \<open>config\<close> maps of the
  specs) come back with every integer as a floating-point number, every other field comes
  back as it was.  Integers are taken to be in the range that \<open>float64\<close> holds exactly,
  and strings to be valid UTF-8.
\<close>

primrec decoded_dyn :: "dyn \<Rightarrow> dyn" where
  "decoded_dyn DNil = DNil"
| "decoded_dyn (DBool b) = DBool b"
| "decoded_dyn (DInt i) = DFloat (of_int i)"
| "decoded_dyn (DFloat x) = DFloat x"
| "decoded_dyn (DString s) = DString s"
| "decoded_dyn (DList xs) = DList (map decoded_dyn xs)"
| "decoded_dyn (DMap m) = DMap (map (map_prod (\<lambda>k. k) decoded_dyn) m)"

definition decoded_values :: "(string \<times> dyn) list \<Rightarrow> (string \<times> dyn) list" where
  "decoded_values m = map (map_prod (\<lambda>k. k) decoded_dyn) m"

definition decoded_WorkerPoolSpec :: "WorkerPoolSpec \<Rightarrow> WorkerPoolSpec" where
  "decoded_WorkerPoolSpec x = x\<lparr>pool_Config := decoded_values (pool_Config x)\<rparr>"

definition decoded_ClusterSpec :: "ClusterSpec \<Rightarrow> ClusterSpec" where
  "decoded_ClusterSpec x =
     x\<lparr>ControlPlane := (ControlPlane x)\<lparr>cp_Config := decoded_values (cp_Config (ControlPlane x))\<rparr>,
       WorkerPools := map decoded_WorkerPoolSpec (WorkerPools x),
       Config := decoded_values (Config x)\<rparr>"

definition decoded_State :: "State \<Rightarrow> State" where
  "decoded_State s =
     \<lparr>Clusters =
        map (map_prod (\<lambda>k. k) (\<lambda>c. c\<lparr>Spec := decoded_ClusterSpec (Spec c)\<rparr>)) (Clusters s),
      NodePools =
        map (map_prod (\<lambda>k. k) (\<lambda>p. p\<lparr>Spec := decoded_WorkerPoolSpec (Spec p)\<rparr>)) (NodePools s),
      Networks = decoded_values (Networks s),
      state_Metadata = decoded_values (state_Metadata s)\<rparr>"

definition decoded_Snapshot :: "Snapshot \<Rightarrow> Snapshot" where
  "decoded_Snapshot s = s\<lparr>snap_State := decoded_State (snap_State s)\<rparr>"

text \<open>
  The values a state holds behind \<open>interface{}\<close>, and whether such a value holds no
  integer.
\<close>

primrec no_integer :: "dyn \<Rightarrow> bool" where
  "no_integer DNil = True"
| "no_integer (DBool b) = True"
| "no_integer (DInt i) = False"
| "no_integer (DFloat x) = True"
| "no_integer (DString s) = True"
| "no_integer (DList xs) = list_all no_integer xs"
| "no_integer (DMap m) = list_all snd (map (map_prod (\<lambda>k. k) no_integer) m)"

definition interface_values_WorkerPoolSpec :: "WorkerPoolSpec \<Rightarrow> dyn list" where
  "interface_values_WorkerPoolSpec x = map snd (pool_Config x)"

definition interface_values_ClusterSpec :: "ClusterSpec \<Rightarrow> dyn list" where
  "interface_values_ClusterSpec x =
     map snd (cp_Config (ControlPlane x)) @
     concat (map interface_values_WorkerPoolSpec (WorkerPools x)) @
     map snd (Config x)"

definition interface_values :: "State \<Rightarrow> dyn list" where
  "interface_values s =
     concat (map (\<lambda>kv. interface_values_ClusterSpec (Spec (snd kv))) (Clusters s)) @
     concat (map (\<lambda>kv. interface_values_WorkerPoolSpec (Spec (snd kv))) (NodePools s)) @
     map snd (Networks s) @ map snd (state_Metadata s)"

text \<open>
  \<open>goJSON\<close> is the JSON library on files that hold the document of a snapshot: decoding
  the file written for a snapshot returns \<open>decoded_Snapshot\<close> of it.
\<close>

definition goJSON :: "(real \<Rightarrow> string) \<Rightarrow> (doc \<Rightarrow> nat) \<Rightarrow> doc JSON" where
  "goJSON F sz =
     \<lparr>Marshal_State = json_Marshal_State F,
      Marshal_ClusterSpec = (\<lambda>s. Inr (json_ClusterSpec F s)),
      Marshal_WorkerPoolSpec = (\<lambda>s. Inr (json_WorkerPoolSpec F s)),
      MarshalIndent_Snapshot = (\<lambda>s. Inr (SnapshotFile s)),
      Unmarshal_Snapshot =
        (\<lambda>b. case b of
               SnapshotFile s \<Rightarrow> Inr (decoded_Snapshot s)
             | OtherFile _ \<Rightarrow> Inl (ExternalError ''invalid character'')),
      len = sz\<rparr>"

section \<open>Drift detector (pkg/drift/detector.go)\<close>

type_synonym DriftType = string

abbreviation DriftConfigChange :: DriftType where "DriftConfigChange \<equiv> ''config_change''"
abbreviation DriftVersionSkew :: DriftType where "DriftVersionSkew \<equiv> ''version_skew''"
abbreviation DriftScaleChange :: DriftType where "DriftScaleChange \<equiv> ''scale_change''"
abbreviation DriftNetworkChange :: DriftType where "DriftNetworkChange \<equiv> ''network_change''"
abbreviation DriftSecurityChange :: DriftType where "DriftSecurityChange \<equiv> ''security_change''"
abbreviation DriftResourceDeleted :: DriftType where "DriftResourceDeleted \<equiv> ''resource_deleted''"
abbreviation DriftResourceAdded :: DriftType where "DriftResourceAdded \<equiv> ''resource_added''"

type_synonym Severity = string

abbreviation SeverityCritical :: Severity where "SeverityCritical \<equiv> ''critical''"
abbreviation SeverityHigh :: Severity where "SeverityHigh \<equiv> ''high''"
abbreviation SeverityMedium :: Severity where "SeverityMedium \<equiv> ''medium''"
abbreviation SeverityLow :: Severity where "SeverityLow \<equiv> ''low''"

record ResourceDrift =
  drift_Resource :: ResourceID
  DriftType :: DriftType
  Field :: string
  Expected :: dyn
  Actual :: dyn
  Severity :: Severity
  Remediatable :: bool

record DriftSummary =
  TotalDrifts :: int
  CriticalCount :: int
  HighCount :: int
  MediumCount :: int
  LowCount :: int
  RemediableCount :: int

record DriftReport =
  DetectedAt :: Time
  HasDrift :: bool
  Drifts :: "ResourceDrift list"
  Summary :: DriftSummary

definition zero_DriftSummary :: DriftSummary where
  "zero_DriftSummary =
     \<lparr>TotalDrifts = 0, CriticalCount = 0, HighCount = 0, MediumCount = 0, LowCount = 0,
      RemediableCount = 0\<rparr>"

text \<open>
  The \<open>slog\<close> logger is the list of the records written to it: level, message and
  attributes.
\<close>

datatype level = LevelDebug | LevelInfo | LevelWarn | LevelError

datatype logval = LString string | LInt int | LError error | LValue dyn

record LogRecord =
  lvl :: level
  msg :: string
  attrs :: "(string \<times> logval) list"

record DriftDetector =
  dd_engine :: Engine
  logger :: "LogRecord list"

definition log :: "level \<Rightarrow> string \<Rightarrow> (string \<times> logval) list \<Rightarrow> DriftDetector \<Rightarrow> DriftDetector" where
  "log l m kvs d = d\<lparr>logger := logger d @ [\<lparr>lvl = l, msg = m, attrs = kvs\<rparr>]\<rparr>"

definition getAllProviders :: "DriftDetector \<Rightarrow> (string \<times> CloudProvider) list" where
  "getAllProviders d = (let providers = [] in providers)"

subsection \<open>DetectDrift\<close>

text \<open>The loop over the pools of the actual cluster, for one desired pool.\<close>

fun actualPoolLoop ::
  "string \<Rightarrow> string \<Rightarrow> WorkerPoolSpec \<Rightarrow> WorkerPoolSpec list \<Rightarrow> bool \<Rightarrow> ResourceDrift list
     \<Rightarrow> bool \<times> ResourceDrift list" where
  "actualPoolLoop providerName i desiredPool [] foundPool drifts = (foundPool, drifts)"
| "actualPoolLoop providerName i desiredPool (actualPool # rest) foundPool drifts =
     (if pool_Name desiredPool = pool_Name actualPool
      then actualPoolLoop providerName i desiredPool rest True
             (if DesiredSize desiredPool \<noteq> DesiredSize actualPool
              then drifts @
                     [\<lparr>drift_Resource =
                         \<lparr>rid_Provider = providerName, rid_Kind = ''NodePool'',
                          rid_ID = i @ ''/'' @ pool_Name desiredPool,
                          rid_Name = pool_Name desiredPool\<rparr>,
                       DriftType = DriftScaleChange,
                       Field = ''desiredSize'',
                       Expected = DInt (DesiredSize desiredPool),
                       Actual = DInt (DesiredSize actualPool),
                       Severity = SeverityMedium,
                       Remediatable = True\<rparr>]
              else drifts)
      else actualPoolLoop providerName i desiredPool rest foundPool drifts)"

text \<open>The loop over the worker pools of a desired cluster.\<close>

fun desiredPoolLoop ::
  "string \<Rightarrow> string \<Rightarrow> WorkerPoolSpec list \<Rightarrow> WorkerPoolSpec list \<Rightarrow> ResourceDrift list
     \<Rightarrow> ResourceDrift list" where
  "desiredPoolLoop providerName i [] actualPools drifts = drifts"
| "desiredPoolLoop providerName i (desiredPool # rest) actualPools drifts =
     (case actualPoolLoop providerName i desiredPool actualPools False drifts of
        (foundPool, drifts1) \<Rightarrow>
          desiredPoolLoop providerName i rest actualPools
            (if \<not> foundPool
             then drifts1 @
                    [\<lparr>drift_Resource =
                        \<lparr>rid_Provider = providerName, rid_Kind = ''NodePool'',
                         rid_ID = i @ ''/'' @ pool_Name desiredPool,
                         rid_Name = pool_Name desiredPool\<rparr>,
                      DriftType = DriftResourceDeleted,
                      Field = ''nodePool'',
                      Expected = DString ''exists'',
                      Actual = DString ''deleted'',
                      Severity = SeverityHigh,
                      Remediatable = True\<rparr>]
             else drifts1))"

text \<open>The loop over the desired clusters, for one provider and the state it reports.\<close>

fun clusterLoop ::
  "string \<Rightarrow> State \<Rightarrow> (string \<times> Cluster) list \<Rightarrow> ResourceDrift list \<Rightarrow> ResourceDrift list" where
  "clusterLoop providerName actual [] drifts = drifts"
| "clusterLoop providerName actual ((i, desiredCluster) # rest) drifts =
     (if Provider (Spec desiredCluster) \<noteq> providerName
      then clusterLoop providerName actual rest drifts
      else
        (case map_of (Clusters actual) i of
           None \<Rightarrow>
             clusterLoop providerName actual rest
               (drifts @
                  [\<lparr>drift_Resource =
                      \<lparr>rid_Provider = providerName, rid_Kind = ''Cluster'', rid_ID = i,
                       rid_Name = Name (Metadata desiredCluster)\<rparr>,
                    DriftType = DriftResourceDeleted,
                    Field = ''cluster'',
                    Expected = DString ''exists'',
                    Actual = DString ''deleted'',
                    Severity = SeverityCritical,
                    Remediatable = True\<rparr>])
         | Some actualCluster \<Rightarrow>
             (let drifts1 =
                    (if Version (ControlPlane (Spec desiredCluster)) \<noteq>
                        Version (ControlPlane (Spec actualCluster))
                     then drifts @
                            [\<lparr>drift_Resource =
                                \<lparr>rid_Provider = providerName, rid_Kind = ''Cluster'',
                                 rid_ID = i, rid_Name = Name (Metadata desiredCluster)\<rparr>,
                              DriftType = DriftVersionSkew,
                              Field = ''controlPlane.version'',
                              Expected = DString (Version (ControlPlane (Spec desiredCluster))),
                              Actual = DString (Version (ControlPlane (Spec actualCluster))),
                              Severity = SeverityHigh,
                              Remediatable = True\<rparr>]
                     else drifts);
                  drifts2 =
                    desiredPoolLoop providerName i (WorkerPools (Spec desiredCluster))
                      (WorkerPools (Spec actualCluster)) drifts1
              in clusterLoop providerName actual rest drifts2)))"

text \<open>The loop over the providers that \<open>getAllProviders\<close> returns.\<close>

fun providerLoop ::
  "State \<Rightarrow> (string \<times> CloudProvider) list \<Rightarrow> ResourceDrift list \<Rightarrow> DriftDetector
     \<Rightarrow> ResourceDrift list \<times> DriftDetector" where
  "providerLoop desired [] drifts d = (drifts, d)"
| "providerLoop desired ((providerName, provider) # rest) drifts d =
     (let d1 = log LevelDebug ''checking drift for provider''
                 [(''provider'', LString providerName)] d
      in case Reconcile provider desired zero_State of
           Inl err \<Rightarrow>
             providerLoop desired rest drifts
               (log LevelError ''failed to get actual state''
                  [(''provider'', LString providerName), (''error'', LError err)] d1)
         | Inr actual \<Rightarrow>
             providerLoop desired rest
               (clusterLoop providerName actual (Clusters desired) drifts) d1)"

fun summaryLoop :: "ResourceDrift list \<Rightarrow> DriftSummary \<Rightarrow> DriftSummary" where
  "summaryLoop [] s = s"
| "summaryLoop (drift # rest) s =
     (let s1 =
            (if Severity drift = SeverityCritical then s\<lparr>CriticalCount := CriticalCount s + 1\<rparr>
             else if Severity drift = SeverityHigh then s\<lparr>HighCount := HighCount s + 1\<rparr>
             else if Severity drift = SeverityMedium then s\<lparr>MediumCount := MediumCount s + 1\<rparr>
             else if Severity drift = SeverityLow then s\<lparr>LowCount := LowCount s + 1\<rparr>
             else s);
          s2 = (if Remediatable drift then s1\<lparr>RemediableCount := RemediableCount s1 + 1\<rparr>
                else s1)
      in summaryLoop rest s2)"

definition DetectDrift ::
  "DriftDetector \<Rightarrow> Time \<Rightarrow> State \<Rightarrow> (DriftReport \<times> error option) \<times> DriftDetector" where
  "DetectDrift d now desired =
     (let d0 = log LevelInfo ''starting drift detection'' [] d;
          (drifts, d1) = providerLoop desired (getAllProviders d0) [] d0;
          summary = (summaryLoop drifts zero_DriftSummary)\<lparr>TotalDrifts := int (length drifts)\<rparr>;
          report = \<lparr>DetectedAt = now, HasDrift = (length drifts > 0), Drifts = drifts,
                    Summary = summary\<rparr>;
          d2 = log LevelInfo ''drift detection complete''
                 [(''total_drifts'', LInt (TotalDrifts summary)),
                  (''critical'', LInt (CriticalCount summary)),
                  (''high'', LInt (HighCount summary))] d1
      in ((report, None), d2))"

subsection \<open>Remediate\<close>

definition remediateDrift :: "DriftDetector \<Rightarrow> ResourceDrift \<Rightarrow> error option \<times> DriftDetector" where
  "remediateDrift d drift =
     (case GetProvider (dd_engine d) (rid_Provider (drift_Resource drift)) of
        None \<Rightarrow>
          (Some (Errorf (''provider '' @ rid_Provider (drift_Resource drift) @ '' not found'')), d)
      | Some provider \<Rightarrow>
          (if DriftType drift = DriftResourceDeleted
           then (None, log LevelInfo ''recreating deleted resource''
                         [(''resource'', LString (rid_Name (drift_Resource drift)))] d)
           else if DriftType drift = DriftVersionSkew
           then (None, log LevelInfo ''updating version''
                         [(''resource'', LString (rid_Name (drift_Resource drift))),
                          (''expected'', LValue (Expected drift))] d)
           else if DriftType drift = DriftScaleChange
           then (None, log LevelInfo ''adjusting scale''
                         [(''resource'', LString (rid_Name (drift_Resource drift))),
                          (''expected'', LValue (Expected drift))] d)
           else (Some (Errorf (''unsupported drift type: '' @ DriftType drift)), d)))"

fun remediateLoop :: "ResourceDrift list \<Rightarrow> int \<Rightarrow> DriftDetector \<Rightarrow> int \<times> DriftDetector" where
  "remediateLoop [] remediatedCount d = (remediatedCount, d)"
| "remediateLoop (drift # rest) remediatedCount d =
     (if \<not> Remediatable drift
      then remediateLoop rest remediatedCount
             (log LevelWarn ''drift not remediatable''
                [(''resource'', LString (rid_Name (drift_Resource drift))),
                 (''type'', LString (DriftType drift))] d)
      else
        (let d1 = log LevelInfo ''remediating drift''
                    [(''resource'', LString (rid_Name (drift_Resource drift))),
                     (''type'', LString (DriftType drift)),
                     (''field'', LString (Field drift))] d
         in case remediateDrift d1 drift of
              (Some err, d2) \<Rightarrow>
                remediateLoop rest remediatedCount
                  (log LevelError ''failed to remediate drift''
                     [(''resource'', LString (rid_Name (drift_Resource drift))),
                      (''error'', LError err)] d2)
            | (None, d2) \<Rightarrow> remediateLoop rest (remediatedCount + 1) d2))"

definition Remediate :: "DriftDetector \<Rightarrow> DriftReport \<Rightarrow> error option \<times> DriftDetector" where
  "Remediate d report =
     (let d0 = log LevelInfo ''starting drift remediation''
                 [(''total_drifts'', LInt (int (length (Drifts report))))] d;
          (remediatedCount, d1) = remediateLoop (Drifts report) 0 d0;
          d2 = log LevelInfo ''drift remediation complete''
                 [(''remediated'', LInt remediatedCount),
                  (''total'', LInt (int (length (Drifts report))))] d1
      in (None, d2))"

text \<open>
  The error, if any, with which the remediation of one drift item fails, and the log
  record \<open>Remediate\<close> writes for an item that failed.
\<close>

definition remediationError :: "Engine \<Rightarrow> ResourceDrift \<Rightarrow> error option" where
  "remediationError e drift =
     (case GetProvider e (rid_Provider (drift_Resource drift)) of
        None \<Rightarrow> Some (Errorf (''provider '' @ rid_Provider (drift_Resource drift) @ '' not found''))
      | Some provider \<Rightarrow>
          (if DriftType drift = DriftResourceDeleted \<or> DriftType drift = DriftVersionSkew \<or>
              DriftType drift = DriftScaleChange
           then None
           else Some (Errorf (''unsupported drift type: '' @ DriftType drift))))"

definition failureRecord :: "Engine \<Rightarrow> ResourceDrift \<Rightarrow> LogRecord" where
  "failureRecord e drift =
     \<lparr>lvl = LevelError, msg = ''failed to remediate drift'',
      attrs = [(''resource'', LString (rid_Name (drift_Resource drift))),
               (''error'', LError (the (remediationError e drift)))]\<rparr>"

definition attemptRecord :: "ResourceDrift \<Rightarrow> LogRecord" where
  "attemptRecord drift =
     \<lparr>lvl = LevelInfo, msg = ''remediating drift'',
      attrs = [(''resource'', LString (rid_Name (drift_Resource drift))),
               (''type'', LString (DriftType drift)),
               (''field'', LString (Field drift))]\<rparr>"

section \<open>Example inputs\<close>

text \<open>Example resources, shaped like the fixtures of the repository's tests.\<close>

definition cluster1 :: Cluster where
  "cluster1 = zero_Cluster\<lparr>ID := ''cluster-1'',
     Metadata := zero_ResourceMetadata\<lparr>Name := ''test-cluster''\<rparr>,
     Spec := zero_ClusterSpec\<lparr>Provider := ''aws'',
       ControlPlane := zero_ControlPlaneSpec\<lparr>Version := ''1.28''\<rparr>\<rparr>\<rparr>"

definition pool1 :: NodePool where
  "pool1 = zero_NodePool\<lparr>ID := ''pool-1'',
     Metadata := zero_ResourceMetadata\<lparr>Name := ''workers''\<rparr>\<rparr>"

text \<open>
  An engine with the provider \<open>aws\<close> registered; the live state the provider reports
  holds \<open>cluster-1\<close> at control-plane version 1.28.
\<close>

definition awsProvider :: CloudProvider where
  "awsProvider =
     \<lparr>prov_Name = ''aws'',
      Reconcile = (\<lambda>desired actual. Inr (zero_State\<lparr>Clusters := [(''cluster-1'', cluster1)]\<rparr>))\<rparr>"

definition zero_StateManager :: StateManager where
  "zero_StateManager =
     \<lparr>stored = zero_State, GetState_err = None, SaveState_err = None, Commit_err = None,
      tx_calls = []\<rparr>"

definition zero_EventStore :: EventStore where
  "zero_EventStore = \<lparr>recorded = [], RecordEvent_err = (\<lambda>event. None)\<rparr>"

definition awsEngine :: Engine where
  "awsEngine = RegisterProvider (NewEngine zero_StateManager zero_EventStore) awsProvider"

text \<open>
  A plan of three actions: a create on the registered provider \<open>aws\<close>, a create whose
  provider \<open>gcp\<close> is not registered, and a delete on \<open>aws\<close>.
\<close>

definition createAws :: Action where
  "createAws =
     \<lparr>Type = ActionCreate,
      Resource = \<lparr>rid_Provider = ''aws'', rid_Kind = ''Cluster'', rid_ID = ''cluster-1'',
                  rid_Name = ''test-cluster''\<rparr>,
      Parameters = []\<rparr>"

definition createGcp :: Action where
  "createGcp =
     \<lparr>Type = ActionCreate,
      Resource = \<lparr>rid_Provider = ''gcp'', rid_Kind = ''Cluster'', rid_ID = ''cluster-2'',
                  rid_Name = ''other-cluster''\<rparr>,
      Parameters = []\<rparr>"

definition deleteAws :: Action where
  "deleteAws =
     \<lparr>Type = ActionDelete,
      Resource = \<lparr>rid_Provider = ''aws'', rid_Kind = ''Cluster'', rid_ID = ''cluster-3'',
                  rid_Name = ''old-cluster''\<rparr>,
      Parameters = []\<rparr>"

text \<open>
  The desired state of the version-drift scenario: \<open>cluster-1\<close> on provider \<open>aws\<close> at
  control-plane version 1.29, while \<open>awsProvider\<close> reports it at 1.28.
\<close>

definition cluster1_v129 :: Cluster where
  "cluster1_v129 = zero_Cluster\<lparr>ID := ''cluster-1'',
     Metadata := zero_ResourceMetadata\<lparr>Name := ''test-cluster''\<rparr>,
     Spec := zero_ClusterSpec\<lparr>Provider := ''aws'',
       ControlPlane := zero_ControlPlaneSpec\<lparr>Version := ''1.29''\<rparr>\<rparr>\<rparr>"

definition awsDetector :: DriftDetector where
  "awsDetector = \<lparr>dd_engine = awsEngine, logger = []\<rparr>"

text \<open>
  A remediatable drift item on the provider \<open>gcp\<close>, which \<open>awsEngine\<close> does not know,
  and one on \<open>aws\<close>.
\<close>

definition gcpDrift :: ResourceDrift where
  "gcpDrift =
     \<lparr>drift_Resource = \<lparr>rid_Provider = ''gcp'', rid_Kind = ''Cluster'', rid_ID = ''cluster-2'',
                        rid_Name = ''other-cluster''\<rparr>,
      DriftType = DriftVersionSkew, Field = ''controlPlane.version'',
      Expected = DString ''1.29'', Actual = DString ''1.28'',
      Severity = SeverityHigh, Remediatable = True\<rparr>"

definition awsDrift :: ResourceDrift where
  "awsDrift =
     \<lparr>drift_Resource = \<lparr>rid_Provider = ''aws'', rid_Kind = ''Cluster'', rid_ID = ''cluster-1'',
                        rid_Name = ''test-cluster''\<rparr>,
      DriftType = DriftVersionSkew, Field = ''controlPlane.version'',
      Expected = DString ''1.29'', Actual = DString ''1.28'',
      Severity = SeverityHigh, Remediatable = True\<rparr>"

text \<open>
  February 3, 2024, 03:30:00 UTC as an instant, and one second.  \<open>exJSON\<close> is the JSON
  library of the examples; they hold no floating-point number and use no file size.
\<close>

definition t0 :: Time where
  "t0 = (62135596800 + 1706931000) * 1000000000"

definition second :: Duration where
  "second = 1000000000"

definition exJSON :: "doc JSON" where
  "exJSON = docJSON (\<lambda>x. ''0'') (\<lambda>b. 0)"

text \<open>
  A snapshot of the empty state with the given id, made \<open>k\<close> seconds after \<open>t0\<close>, as
  \<open>CreateSnapshot\<close> writes it, and a snapshot directory holding five snapshots, made 1,
  2, 3, 4 and 5 seconds after \<open>t0\<close>, under the ids \<open>generateSnapshotID\<close> gives at these
  times.
\<close>

definition snapAt :: "string \<Rightarrow> int \<Rightarrow> Snapshot" where
  "snapAt ident k =
     \<lparr>snap_ID = ident,
      snap_CreatedAt = t0 + k * second,
      Description = ''Snapshot'',
      snap_State = zero_State,
      snap_Metadata =
        \<lparr>meta_Version = ''1.0'', CreatedBy = ''provctl'', meta_TriggerReason = TriggerManual,
         ClusterCount = 0, NodePoolCount = 0, meta_Tags = []\<rparr>,
      Checksum = calculateChecksum exJSON zero_State\<rparr>"

definition fiveSnapshots :: "doc Manager" where
  "fiveSnapshots =
     \<lparr>snapshotDir =
        \<lparr>files =
           [(''snapshot-20240203-033001.json'', SnapshotFile (snapAt ''snapshot-20240203-033001'' 1)),
            (''snapshot-20240203-033002.json'', SnapshotFile (snapAt ''snapshot-20240203-033002'' 2)),
            (''snapshot-20240203-033003.json'', SnapshotFile (snapAt ''snapshot-20240203-033003'' 3)),
            (''snapshot-20240203-033004.json'', SnapshotFile (snapAt ''snapshot-20240203-033004'' 4)),
            (''snapshot-20240203-033005.json'', SnapshotFile (snapAt ''snapshot-20240203-033005'' 5))],
         readonly = False, unreadable = False\<rparr>,
      mgr_state = zero_StateManager\<rparr>"

definition infoAt :: "string \<Rightarrow> int \<Rightarrow> SnapshotInfo" where
  "infoAt ident k =
     \<lparr>info_ID = ident, info_CreatedAt = t0 + k * second, info_Description = ''Snapshot'',
      info_TriggerReason = TriggerManual, info_ClusterCount = 0, info_NodePoolCount = 0,
      SizeBytes = 0\<rparr>"

text \<open>
  Two states that differ in the control-plane version of \<open>cluster-1\<close>, 1.28 and 1.29, and
  a manager with an empty snapshot directory whose persisted state is the first.
\<close>

definition stateA :: State where
  "stateA = zero_State\<lparr>Clusters := [(''cluster-1'', cluster1)]\<rparr>"

definition stateB :: State where
  "stateB = zero_State\<lparr>Clusters := [(''cluster-1'', cluster1_v129)]\<rparr>"

definition mgrA :: "doc Manager" where
  "mgrA =
     \<lparr>snapshotDir = \<lparr>files = [], readonly = False, unreadable = False\<rparr>,
      mgr_state = zero_StateManager\<lparr>stored := stateA\<rparr>\<rparr>"

text \<open>
  The snapshot \<open>CreateSnapshot\<close> makes of a state at the instant \<open>t\<close>, under the
  description \<open>d\<close>, with the JSON library of the examples.
\<close>

definition snapOf :: "State \<Rightarrow> Time \<Rightarrow> string \<Rightarrow> Snapshot" where
  "snapOf st t d =
     \<lparr>snap_ID = generateSnapshotID t,
      snap_CreatedAt = t,
      Description = d,
      snap_State = st,
      snap_Metadata =
        \<lparr>meta_Version = ''1.0'', CreatedBy = ''provctl'', meta_TriggerReason = TriggerManual,
         ClusterCount = int (length (Clusters st)), NodePoolCount = int (length (NodePools st)),
         meta_Tags = []\<rparr>,
      Checksum = calculateChecksum exJSON st\<rparr>"

text \<open>
  A manager whose snapshot directory holds one file: the snapshot made of \<open>stateA\<close> at
  \<open>t0\<close>, in which the state has since been replaced by \<open>stateB\<close>; the stored checksum is
  still that of \<open>stateA\<close>.
\<close>

definition tampered :: "doc Manager" where
  "tampered =
     \<lparr>snapshotDir =
        \<lparr>files = [(generateSnapshotID t0 @ ''.json'',
                    SnapshotFile ((snapOf stateA t0 ''Snapshot'')\<lparr>snap_State := stateB\<rparr>))],
         readonly = False, unreadable = False\<rparr>,
      mgr_state = zero_StateManager\<lparr>stored := stateA\<rparr>\<rparr>"

text \<open>
  The manager after a first snapshot of \<open>stateA\<close> was made at \<open>t0\<close>, and that manager
  once the persisted state has changed to \<open>stateB\<close>.
\<close>

definition afterFirst :: "doc Manager" where
  "afterFirst = snd (CreateSnapshot exJSON t0 t0 ''first'' TriggerManual mgrA)"

definition mgrB :: "doc Manager" where
  "mgrB = afterFirst\<lparr>mgr_state := (mgr_state afterFirst)\<lparr>stored := stateB\<rparr>\<rparr>"







section \<open>Properties of the engine\<close>

lemma actionError_cong:
  "providers e' = providers e \<Longrightarrow> RecordEvent_err (events e') = RecordEvent_err (events e)
   \<Longrightarrow> actionError e' = actionError e"
  by (rule ext) (simp add: actionError_def GetProvider_def split: option.splits)

text \<open>
  The loop of \<open>Apply\<close> in closed form: it runs through the plan up to the first action
  with which something goes wrong, and stops there.
\<close>

lemma applyLoop_char:
  "applyLoop e acts =
     (case firstFailing e acts of
        None \<Rightarrow>
          (None, e\<lparr>executed := executed e @ acts,
                    events := (events e)\<lparr>recorded := recorded (events e) @ map eventOf acts\<rparr>\<rparr>)
      | Some a \<Rightarrow>
          (actionError e a,
           e\<lparr>executed := executed e @ appliedPrefix e acts @
                (if GetProvider e (rid_Provider (Resource a)) = None then [] else [a]),
             events := (events e)\<lparr>recorded := recorded (events e) @
                                     map eventOf (appliedPrefix e acts)\<rparr>\<rparr>))"
proof (induction acts arbitrary: e)
  case Nil
  then show ?case by (simp add: firstFailing_def appliedPrefix_def)
next
  case (Cons a acts)
  show ?case
  proof (cases "actionError e a")
    case None
    then obtain p where p: "GetProvider e (rid_Provider (Resource a)) = Some p"
      and r: "RecordEvent_err (events e) (eventOf a) = None"
      by (auto simp: actionError_def split: option.splits)
    let ?e1 = "e\<lparr>executed := executed e @ [a],
                   events := (events e)\<lparr>recorded := recorded (events e) @ [eventOf a]\<rparr>\<rparr>"
    have step: "applyLoop e (a # acts) = applyLoop ?e1 acts"
      using p r
      by (simp add: executeAction_def executeCreate_def executeUpdate_def executeDelete_def
          RecordEvent_def Let_def)
    have same: "actionError ?e1 = actionError e"
      by (rule actionError_cong) simp_all
    have gp: "GetProvider ?e1 = GetProvider e"
      by (rule ext) (simp add: GetProvider_def)
    show ?thesis
      unfolding step Cons.IH [of ?e1]
      using None
      by (simp add: firstFailing_def appliedPrefix_def same gp split: list.splits)
  next
    case (Some err)
    then show ?thesis
      by (auto simp: firstFailing_def appliedPrefix_def actionError_def executeAction_def
          executeCreate_def executeUpdate_def executeDelete_def RecordEvent_def Let_def
          split: option.splits)
  qed
qed

lemma firstFailing_error: "firstFailing e acts = Some a \<Longrightarrow> actionError e a \<noteq> None"
proof -
  assume "firstFailing e acts = Some a"
  then obtain rest where d: "dropWhile (\<lambda>a. actionError e a = None) acts = a # rest"
    by (auto simp: firstFailing_def split: list.splits)
  have "\<not> (\<lambda>a. actionError e a = None) (hd (dropWhile (\<lambda>a. actionError e a = None) acts))"
    by (rule hd_dropWhile) (simp add: d)
  then show ?thesis by (simp add: d)
qed

text \<open>
  C7: \<open>Apply\<close> is fail-fast.  With \<open>appliedPrefix\<close> the actions before the first one with
  which something goes wrong (its provider is not registered, or the write of its event
  fails) and \<open>firstFailing\<close> that action:
  \<^item> the events recorded by the call are exactly those of the applied prefix, so none is
    recorded for the failing action or for a later one;
  \<^item> when there is no failing action, every action was executed, \<open>Commit\<close> was called, and
    the result is the result of \<open>Commit\<close>;
  \<^item> when there is one, the result is its error, no later action was executed, \<open>Commit\<close>
    was not called and the transaction was rolled back; the error is
    \<open>ErrProviderNotFound\<close> when the provider of the failing action is not registered, and
    that action was then not executed either.
  The deferred \<open>Rollback\<close> is the last call on the transaction on both ways out.
\<close>

theorem Apply_fail_fast:
  "Apply e plan = (r, e') \<Longrightarrow>
     recorded (events e') =
       recorded (events e) @ map eventOf (appliedPrefix e (Actions plan)) \<and>
     (case firstFailing e (Actions plan) of
        None \<Rightarrow>
          r = Commit_err (state e) \<and>
          executed e' = executed e @ Actions plan \<and>
          tx_calls (state e') = tx_calls (state e) @ [BeginTransaction, Commit, Rollback]
      | Some a \<Rightarrow>
          r = actionError e a \<and> r \<noteq> None \<and>
          executed e' = executed e @ appliedPrefix e (Actions plan) @
             (if GetProvider e (rid_Provider (Resource a)) = None then [] else [a]) \<and>
          tx_calls (state e') = tx_calls (state e) @ [BeginTransaction, Rollback] \<and>
          (GetProvider e (rid_Provider (Resource a)) = None \<longrightarrow> r = Some ErrProviderNotFound))"
proof -
  assume A: "Apply e plan = (r, e')"
  let ?e0 = "e\<lparr>state := call_tx BeginTransaction (state e)\<rparr>"
  have same: "actionError ?e0 = actionError e"
    by (rule actionError_cong) simp_all
  have ff: "firstFailing ?e0 (Actions plan) = firstFailing e (Actions plan)"
    by (simp add: firstFailing_def same)
  have ap: "appliedPrefix ?e0 (Actions plan) = appliedPrefix e (Actions plan)"
    by (simp add: appliedPrefix_def same)
  have gp: "GetProvider ?e0 = GetProvider e"
    by (rule ext) (simp add: GetProvider_def)
  have L: "applyLoop ?e0 (Actions plan) =
     (case firstFailing e (Actions plan) of
        None \<Rightarrow>
          (None, ?e0\<lparr>executed := executed e @ Actions plan,
                    events := (events e)\<lparr>recorded := recorded (events e) @
                                            map eventOf (Actions plan)\<rparr>\<rparr>)
      | Some a \<Rightarrow>
          (actionError e a,
           ?e0\<lparr>executed := executed e @ appliedPrefix e (Actions plan) @
                (if GetProvider e (rid_Provider (Resource a)) = None then [] else [a]),
             events := (events e)\<lparr>recorded := recorded (events e) @
                                     map eventOf (appliedPrefix e (Actions plan))\<rparr>\<rparr>))"
    unfolding applyLoop_char ff ap same gp by (simp split: option.splits)
  show ?thesis
  proof (cases "firstFailing e (Actions plan)")
    case None
    then have all: "appliedPrefix e (Actions plan) = Actions plan"
      by (auto simp: firstFailing_def appliedPrefix_def split: list.splits)
    from A None all show ?thesis
      apply (simp add: Apply_def Let_def L)
      apply (auto simp: call_tx_def)
      done
  next
    case (Some a)
    obtain err where err: "actionError e a = Some err"
      using firstFailing_error [OF Some] by auto
    have pnf: "GetProvider e (rid_Provider (Resource a)) = None \<Longrightarrow> err = ErrProviderNotFound"
      using err by (simp add: actionError_def)
    from A Some pnf show ?thesis
      apply (simp add: Apply_def Let_def L err)
      apply (auto simp: call_tx_def)
      done
  qed
qed

theorem Apply_fail_fast_witness:
  "fst (Apply awsEngine \<lparr>Actions = [createAws, createGcp, deleteAws]\<rparr>) =
     Some ErrProviderNotFound \<and>
   recorded (events (snd (Apply awsEngine \<lparr>Actions = [createAws, createGcp, deleteAws]\<rparr>))) =
     [eventOf createAws] \<and>
   executed (snd (Apply awsEngine \<lparr>Actions = [createAws, createGcp, deleteAws]\<rparr>)) =
     [createAws] \<and>
   tx_calls (state (snd (Apply awsEngine \<lparr>Actions = [createAws, createGcp, deleteAws]\<rparr>))) =
     [BeginTransaction, Rollback]"
proof -
  have e: "actionError awsEngine createAws = None"
    "actionError awsEngine createGcp = Some ErrProviderNotFound"
    "GetProvider awsEngine ''gcp'' = None"
    by (simp_all add: actionError_def awsEngine_def RegisterProvider_def NewEngine_def
        GetProvider_def awsProvider_def createAws_def createGcp_def zero_EventStore_def)
  have s: "recorded (events awsEngine) = []" "executed awsEngine = []"
    "tx_calls (state awsEngine) = []"
    by (simp_all add: awsEngine_def RegisterProvider_def NewEngine_def zero_EventStore_def
        zero_StateManager_def)
  have r: "rid_Provider (Resource createGcp) = ''gcp''"
    by (simp add: createGcp_def)
  show ?thesis
    using Apply_fail_fast [of awsEngine "\<lparr>Actions = [createAws, createGcp, deleteAws]\<rparr>"
        "fst (Apply awsEngine \<lparr>Actions = [createAws, createGcp, deleteAws]\<rparr>)"
        "snd (Apply awsEngine \<lparr>Actions = [createAws, createGcp, deleteAws]\<rparr>)"]
    by (simp add: firstFailing_def appliedPrefix_def e s r)
qed

section \<open>Properties of the planner\<close>

lemma clustersToCreate_eq:
  "clustersToCreate xs actual acts =
     acts @ map (clusterAction ActionCreate)
              (filter (\<lambda>e. map_of (Clusters actual) (fst e) = None) xs)"
  by (induction xs arbitrary: acts) (auto simp: clusterAction_def split: option.splits)

lemma clustersToUpdate_eq:
  "clustersToUpdate xs actual acts =
     acts @ map (clusterAction ActionUpdate)
              (filter (\<lambda>e. case map_of (Clusters actual) (fst e) of
                               None \<Rightarrow> False | Some a \<Rightarrow> needsUpdate (snd e) a) xs)"
  by (induction xs arbitrary: acts) (auto simp: clusterAction_def split: option.splits)

lemma clustersToDelete_eq:
  "clustersToDelete xs desired acts =
     acts @ map (clusterAction ActionDelete)
              (filter (\<lambda>e. map_of (Clusters desired) (fst e) = None) xs)"
  by (induction xs arbitrary: acts) (auto simp: clusterAction_def split: option.splits)

lemma nodePoolsToCreate_eq:
  "nodePoolsToCreate xs actual acts =
     acts @ map nodePoolAction
              (filter (\<lambda>e. map_of (NodePools actual) (fst e) = None) xs)"
  by (induction xs arbitrary: acts) (auto simp: nodePoolAction_def split: option.splits)

text \<open>The plan in closed form: four filtered blocks, in the order of the four loops.\<close>

lemma GeneratePlan_eq:
  "GeneratePlan desired actual =
     (\<lparr>Actions =
         map (clusterAction ActionCreate)
           (filter (\<lambda>e. map_of (Clusters actual) (fst e) = None) (Clusters desired)) @
         map (clusterAction ActionUpdate)
           (filter (\<lambda>e. case map_of (Clusters actual) (fst e) of
                            None \<Rightarrow> False | Some a \<Rightarrow> needsUpdate (snd e) a) (Clusters desired)) @
         map (clusterAction ActionDelete)
           (filter (\<lambda>e. map_of (Clusters desired) (fst e) = None) (Clusters actual)) @
         map nodePoolAction
           (filter (\<lambda>e. map_of (NodePools actual) (fst e) = None) (NodePools desired))\<rparr>, None)"
  by (simp add: GeneratePlan_def clustersToCreate_eq clustersToUpdate_eq clustersToDelete_eq
      nodePoolsToCreate_eq)

lemma wf_map_lookup: "wf_map m \<Longrightarrow> (k, v) \<in> set m \<Longrightarrow> map_of m k = Some v"
  by (simp add: wf_map_def)

lemma filter_self_create: "filter (\<lambda>e. map_of m (fst e) = None) m = []"
  by (auto simp: filter_empty_conv map_of_eq_None_iff)

lemma filter_self_update:
  assumes "wf_map m"
  shows "filter (\<lambda>e. case map_of m (fst e) of None \<Rightarrow> False | Some a \<Rightarrow> needsUpdate (snd e) a) m = []"
proof -
  have "map_of m (fst e) = Some (snd e)" if "e \<in> set m" for e
    using assms that wf_map_lookup [of m "fst e" "snd e"] by simp
  then show ?thesis
    by (auto simp: filter_empty_conv needsUpdate_def)
qed

text \<open>
  C2, as amended.  The plan lists the actions kind by kind, in the order of the four loops:
  the Cluster creates, then the Cluster updates, then the Cluster deletes, and last the
  NodePool creates.  So among the Cluster actions every Create precedes every Update and
  every Update precedes every Delete, while the NodePool creates follow all Cluster actions.
\<close>

theorem GeneratePlan_order:
  "\<exists>cs us ds ps.
     Actions (fst (GeneratePlan desired actual)) = cs @ us @ ds @ ps \<and>
     list_all (\<lambda>a. Type a = ActionCreate \<and> rid_Kind (Resource a) = ''Cluster'') cs \<and>
     list_all (\<lambda>a. Type a = ActionUpdate \<and> rid_Kind (Resource a) = ''Cluster'') us \<and>
     list_all (\<lambda>a. Type a = ActionDelete \<and> rid_Kind (Resource a) = ''Cluster'') ds \<and>
     list_all (\<lambda>a. Type a = ActionCreate \<and> rid_Kind (Resource a) = ''NodePool'') ps"
proof -
  let ?cs = "map (clusterAction ActionCreate)
           (filter (\<lambda>e. map_of (Clusters actual) (fst e) = None) (Clusters desired))"
  let ?us = "map (clusterAction ActionUpdate)
           (filter (\<lambda>e. case map_of (Clusters actual) (fst e) of
                            None \<Rightarrow> False | Some a \<Rightarrow> needsUpdate (snd e) a) (Clusters desired))"
  let ?ds = "map (clusterAction ActionDelete)
           (filter (\<lambda>e. map_of (Clusters desired) (fst e) = None) (Clusters actual))"
  let ?ps = "map nodePoolAction
           (filter (\<lambda>e. map_of (NodePools actual) (fst e) = None) (NodePools desired))"
  have "Actions (fst (GeneratePlan desired actual)) = ?cs @ ?us @ ?ds @ ?ps"
    by (simp add: GeneratePlan_eq)
  moreover have "list_all (\<lambda>a. Type a = ActionCreate \<and> rid_Kind (Resource a) = ''Cluster'') ?cs"
    by (simp add: list_all_iff clusterAction_def)
  moreover have "list_all (\<lambda>a. Type a = ActionUpdate \<and> rid_Kind (Resource a) = ''Cluster'') ?us"
    by (simp add: list_all_iff clusterAction_def)
  moreover have "list_all (\<lambda>a. Type a = ActionDelete \<and> rid_Kind (Resource a) = ''Cluster'') ?ds"
    by (simp add: list_all_iff clusterAction_def)
  moreover have "list_all (\<lambda>a. Type a = ActionCreate \<and> rid_Kind (Resource a) = ''NodePool'') ?ps"
    by (simp add: list_all_iff nodePoolAction_def)
  ultimately show ?thesis by blast
qed

text \<open>
  C2, as stated, fails: with one node pool to create and one cluster to delete, the Delete
  of the cluster is listed before the Create of the node pool.
\<close>

theorem GeneratePlan_order_counterexample:
  "Actions (fst (GeneratePlan (zero_State\<lparr>NodePools := [(''pool-1'', pool1)]\<rparr>)
                              (zero_State\<lparr>Clusters := [(''cluster-1'', cluster1)]\<rparr>))) =
     [\<lparr>Type = ActionDelete,
       Resource = \<lparr>rid_Provider = ''aws'', rid_Kind = ''Cluster'', rid_ID = ''cluster-1'',
                   rid_Name = ''test-cluster''\<rparr>,
       Parameters = []\<rparr>,
      \<lparr>Type = ActionCreate,
       Resource = \<lparr>rid_Provider = '''', rid_Kind = ''NodePool'', rid_ID = ''pool-1'',
                   rid_Name = ''workers''\<rparr>,
       Parameters = [(''spec'', PWorkerPoolSpec zero_WorkerPoolSpec)]\<rparr>]"
  by (simp add: GeneratePlan_def zero_State_def cluster1_def pool1_def zero_Cluster_def
      zero_NodePool_def zero_ClusterSpec_def zero_ResourceMetadata_def)

text \<open>
  C3: the claim asks for a Delete action for every node pool that is in the actual state
  and not in the desired one.  \<open>GeneratePlan\<close> has no loop over the actual node pools: for
  an empty desired state and an actual state holding the node pool \<open>pool-1\<close>, the plan is
  empty.
\<close>

theorem GeneratePlan_no_NodePool_delete:
  "GeneratePlan zero_State (zero_State\<lparr>NodePools := [(''pool-1'', pool1)]\<rparr>) =
     (\<lparr>Actions = []\<rparr>, None)"
  by (simp add: GeneratePlan_def zero_State_def)

text \<open>
  C4: for every state \<open>S\<close> (a Go state: the keys of each map are distinct),
  \<open>GeneratePlan S S\<close> returns a plan with no action, and no error.
\<close>

theorem GeneratePlan_idempotent:
  "wf_State S \<Longrightarrow> GeneratePlan S S = (\<lparr>Actions = []\<rparr>, None)"
  by (simp add: GeneratePlan_eq filter_self_create filter_self_update wf_State_def)

theorem GeneratePlan_idempotent_witness:
  "wf_State (zero_State\<lparr>Clusters := [(''cluster-1'', cluster1)],
                         NodePools := [(''pool-1'', pool1)]\<rparr>) \<and>
   GeneratePlan (zero_State\<lparr>Clusters := [(''cluster-1'', cluster1)],
                             NodePools := [(''pool-1'', pool1)]\<rparr>)
                (zero_State\<lparr>Clusters := [(''cluster-1'', cluster1)],
                             NodePools := [(''pool-1'', pool1)]\<rparr>) =
     (\<lparr>Actions = []\<rparr>, None)"
proof -
  have w: "wf_State (zero_State\<lparr>Clusters := [(''cluster-1'', cluster1)],
                                  NodePools := [(''pool-1'', pool1)]\<rparr>)"
    by (simp add: wf_State_def wf_map_def zero_State_def)
  show ?thesis using w GeneratePlan_idempotent [OF w] by simp
qed

section \<open>Properties of the snapshot manager\<close>

subsection \<open>Pruning\<close>

lemma snapAt_fields:
  "snap_ID (snapAt ident k) = ident"
  "snap_CreatedAt (snapAt ident k) = t0 + k * second"
  "Description (snapAt ident k) = ''Snapshot''"
  "meta_TriggerReason (snap_Metadata (snapAt ident k)) = TriggerManual"
  "ClusterCount (snap_Metadata (snapAt ident k)) = 0"
  "NodePoolCount (snap_Metadata (snapAt ident k)) = 0"
  by (simp_all add: snapAt_def)

lemma Ext_json: "filepath_Ext (xs @ ''.json'') = ''.json''"
  by (simp add: filepath_Ext_def)

lemma take_json: "take (length (xs @ ''.json'') - 5) (xs @ ''.json'') = xs"
  by simp

lemma sorted_names:
  "sorted [''snapshot-20240203-033001.json'', ''snapshot-20240203-033002.json'',
           ''snapshot-20240203-033003.json'', ''snapshot-20240203-033004.json'',
           ''snapshot-20240203-033005.json'']"
  by (simp add: less_eq_char_def less_char_def)

lemma ReadDir_five:
  "os_ReadDir (snapshotDir fiveSnapshots) = Inr (files (snapshotDir fiveSnapshots))"
proof -
  have "sorted (map fst (files (snapshotDir fiveSnapshots)))"
    using sorted_names by (simp add: fiveSnapshots_def)
  then show ?thesis
    by (simp add: os_ReadDir_def sort_key_id_if_sorted fiveSnapshots_def)
qed

lemma Load_doc:
  "map_of (files (snapshotDir m)) (ident @ ''.json'') = Some (SnapshotFile s) \<Longrightarrow>
   LoadSnapshot (docJSON F sz) m ident = Inr s"
  by (simp add: LoadSnapshot_def os_ReadFile_def docJSON_def)

lemma listLoop_step:
  "map_of (files (snapshotDir m)) (ident @ ''.json'') = Some (SnapshotFile s) \<Longrightarrow>
   listLoop (docJSON F sz) m ((ident @ ''.json'', content) # rest) snapshots =
     listLoop (docJSON F sz) m rest
       (snapshots @
          [\<lparr>info_ID = snap_ID s,
            info_CreatedAt = snap_CreatedAt s,
            info_Description = Description s,
            info_TriggerReason = meta_TriggerReason (snap_Metadata s),
            info_ClusterCount = ClusterCount (snap_Metadata s),
            info_NodePoolCount = NodePoolCount (snap_Metadata s),
            SizeBytes = int (sz content)\<rparr>])"
  using Load_doc [of m ident s F sz]
  by (simp add: Ext_json docJSON_def del: append.simps)

lemma names:
  "''snapshot-20240203-033001.json'' = ''snapshot-20240203-033001'' @ ''.json''"
  "''snapshot-20240203-033002.json'' = ''snapshot-20240203-033002'' @ ''.json''"
  "''snapshot-20240203-033003.json'' = ''snapshot-20240203-033003'' @ ''.json''"
  "''snapshot-20240203-033004.json'' = ''snapshot-20240203-033004'' @ ''.json''"
  "''snapshot-20240203-033005.json'' = ''snapshot-20240203-033005'' @ ''.json''"
  by simp_all

lemma lookup_five:
  "map_of (files (snapshotDir fiveSnapshots)) (''snapshot-20240203-033001'' @ ''.json'') =
     Some (SnapshotFile (snapAt ''snapshot-20240203-033001'' 1))"
  "map_of (files (snapshotDir fiveSnapshots)) (''snapshot-20240203-033002'' @ ''.json'') =
     Some (SnapshotFile (snapAt ''snapshot-20240203-033002'' 2))"
  "map_of (files (snapshotDir fiveSnapshots)) (''snapshot-20240203-033003'' @ ''.json'') =
     Some (SnapshotFile (snapAt ''snapshot-20240203-033003'' 3))"
  "map_of (files (snapshotDir fiveSnapshots)) (''snapshot-20240203-033004'' @ ''.json'') =
     Some (SnapshotFile (snapAt ''snapshot-20240203-033004'' 4))"
  "map_of (files (snapshotDir fiveSnapshots)) (''snapshot-20240203-033005'' @ ''.json'') =
     Some (SnapshotFile (snapAt ''snapshot-20240203-033005'' 5))"
  by (simp_all add: fiveSnapshots_def)

lemma listLoop_five:
  "listLoop exJSON fiveSnapshots (files (snapshotDir fiveSnapshots)) [] =
     [infoAt ''snapshot-20240203-033001'' 1, infoAt ''snapshot-20240203-033002'' 2,
      infoAt ''snapshot-20240203-033003'' 3, infoAt ''snapshot-20240203-033004'' 4,
      infoAt ''snapshot-20240203-033005'' 5]"
proof -
  have f: "files (snapshotDir fiveSnapshots) =
     [(''snapshot-20240203-033001'' @ ''.json'', SnapshotFile (snapAt ''snapshot-20240203-033001'' 1)),
      (''snapshot-20240203-033002'' @ ''.json'', SnapshotFile (snapAt ''snapshot-20240203-033002'' 2)),
      (''snapshot-20240203-033003'' @ ''.json'', SnapshotFile (snapAt ''snapshot-20240203-033003'' 3)),
      (''snapshot-20240203-033004'' @ ''.json'', SnapshotFile (snapAt ''snapshot-20240203-033004'' 4)),
      (''snapshot-20240203-033005'' @ ''.json'', SnapshotFile (snapAt ''snapshot-20240203-033005'' 5))]"
    by (simp add: fiveSnapshots_def)
  show ?thesis
    unfolding f exJSON_def
    by (simp add: listLoop_step [OF lookup_five(1)] listLoop_step [OF lookup_five(2)]
        listLoop_step [OF lookup_five(3)] listLoop_step [OF lookup_five(4)]
        listLoop_step [OF lookup_five(5)] snapAt_fields infoAt_def
        del: listLoop.simps(2) append.simps)
qed

lemma sort_five:
  "sort_newest_first
     [infoAt ''snapshot-20240203-033001'' 1, infoAt ''snapshot-20240203-033002'' 2,
      infoAt ''snapshot-20240203-033003'' 3, infoAt ''snapshot-20240203-033004'' 4,
      infoAt ''snapshot-20240203-033005'' 5] =
     [infoAt ''snapshot-20240203-033005'' 5, infoAt ''snapshot-20240203-033004'' 4,
      infoAt ''snapshot-20240203-033003'' 3, infoAt ''snapshot-20240203-033002'' 2,
      infoAt ''snapshot-20240203-033001'' 1]"
proof -
  have k: "info_CreatedAt (infoAt ident k) = t0 + k * second" for ident k
    by (simp add: infoAt_def)
  show ?thesis
    by (simp add: sort_newest_first_def k second_def)
qed

lemma ListSnapshots_five:
  "ListSnapshots exJSON fiveSnapshots =
     Inr [infoAt ''snapshot-20240203-033005'' 5, infoAt ''snapshot-20240203-033004'' 4,
          infoAt ''snapshot-20240203-033003'' 3, infoAt ''snapshot-20240203-033002'' 2,
          infoAt ''snapshot-20240203-033001'' 1]"
  by (simp add: ListSnapshots_def ReadDir_five listLoop_five sort_five)

lemma infoAt_ID: "info_ID (infoAt ident k) = ident"
  by (simp add: infoAt_def)

lemma Delete_5:
  "DeleteSnapshot fiveSnapshots ''snapshot-20240203-033005'' =
     Inr (fiveSnapshots\<lparr>snapshotDir := \<lparr>files =
           [(''snapshot-20240203-033001.json'', SnapshotFile (snapAt ''snapshot-20240203-033001'' 1)),
            (''snapshot-20240203-033002.json'', SnapshotFile (snapAt ''snapshot-20240203-033002'' 2)),
            (''snapshot-20240203-033003.json'', SnapshotFile (snapAt ''snapshot-20240203-033003'' 3)),
            (''snapshot-20240203-033004.json'', SnapshotFile (snapAt ''snapshot-20240203-033004'' 4))],
         readonly = False, unreadable = False\<rparr>\<rparr>)"
  by (simp add: DeleteSnapshot_def os_Remove_def fiveSnapshots_def AList.delete_eq)

lemma Delete_4:
  "DeleteSnapshot (fiveSnapshots\<lparr>snapshotDir := \<lparr>files =
           [(''snapshot-20240203-033001.json'', SnapshotFile (snapAt ''snapshot-20240203-033001'' 1)),
            (''snapshot-20240203-033002.json'', SnapshotFile (snapAt ''snapshot-20240203-033002'' 2)),
            (''snapshot-20240203-033003.json'', SnapshotFile (snapAt ''snapshot-20240203-033003'' 3)),
            (''snapshot-20240203-033004.json'', SnapshotFile (snapAt ''snapshot-20240203-033004'' 4))],
         readonly = False, unreadable = False\<rparr>\<rparr>) ''snapshot-20240203-033004'' =
     Inr (fiveSnapshots\<lparr>snapshotDir := \<lparr>files =
           [(''snapshot-20240203-033001.json'', SnapshotFile (snapAt ''snapshot-20240203-033001'' 1)),
            (''snapshot-20240203-033002.json'', SnapshotFile (snapAt ''snapshot-20240203-033002'' 2)),
            (''snapshot-20240203-033003.json'', SnapshotFile (snapAt ''snapshot-20240203-033003'' 3))],
         readonly = False, unreadable = False\<rparr>\<rparr>)"
  by (simp add: DeleteSnapshot_def os_Remove_def fiveSnapshots_def AList.delete_eq)

text \<open>
  C1: a snapshot directory holds five snapshots, made 1 to 5 seconds after 03:30:00, and
  the policy is \<open>{MaxCount: 3}\<close> with \<open>MaxAge\<close> unset.  The claim expects the two oldest
  snapshots (\<open>...033001\<close> and \<open>...033002\<close>) to be deleted and the three newest to stay.
  \<open>PruneSnapshots\<close> walks the list newest first and deletes while more than \<open>MaxCount\<close>
  are left: it deletes the two newest (\<open>...033005\<close> and \<open>...033004\<close>), returns their ids,
  and leaves the three oldest.
\<close>

theorem PruneSnapshots_deletes_newest:
  "PruneSnapshots exJSON now \<lparr>MaxAge = 0, MaxCount = 3\<rparr> fiveSnapshots =
     (([''snapshot-20240203-033005'', ''snapshot-20240203-033004''], None),
      fiveSnapshots\<lparr>snapshotDir := \<lparr>files =
           [(''snapshot-20240203-033001.json'', SnapshotFile (snapAt ''snapshot-20240203-033001'' 1)),
            (''snapshot-20240203-033002.json'', SnapshotFile (snapAt ''snapshot-20240203-033002'' 2)),
            (''snapshot-20240203-033003.json'', SnapshotFile (snapAt ''snapshot-20240203-033003'' 3))],
         readonly = False, unreadable = False\<rparr>\<rparr>)"
  by (simp add: PruneSnapshots_def ListSnapshots_five infoAt_ID Delete_5 Delete_4)


text \<open>
  The count-based branch in general: under a policy with \<open>MaxAge\<close> unset and a positive
  \<open>MaxCount\<close>, a run of \<open>PruneSnapshots\<close> that returns no error has deleted the snapshots
  at the head of the newest-first list, as many as exceed \<open>MaxCount\<close>.
\<close>

lemma pruneLoop_count:
  assumes "MaxAge policy \<le> 0" and "MaxCount policy > 0"
    and "pruneLoop policy now snapshots rest deleted m = ((deleted', None), m')"
  shows "deleted' =
     deleted @ map info_ID
       (take (nat (int (length snapshots) - int (length deleted) - MaxCount policy)) rest)"
  using assms(3)
proof (induction rest arbitrary: deleted m)
  case Nil
  then show ?case by simp
next
  case (Cons snapshot rest)
  show ?case
  proof (cases "int (length snapshots) - int (length deleted) > MaxCount policy")
    case True
    then obtain m1 where
      d: "DeleteSnapshot m (info_ID snapshot) = Inr m1" and
      r: "pruneLoop policy now snapshots rest (deleted @ [info_ID snapshot]) m1 =
            ((deleted', None), m')"
      using Cons.prems assms(1,2) by (auto simp: Let_def split: sum.splits)
    have n: "nat (int (length snapshots) - int (length deleted) - MaxCount policy) =
        Suc (nat (int (length snapshots) - int (length (deleted @ [info_ID snapshot])) -
                  MaxCount policy))"
      using True by simp
    show ?thesis
      using Cons.IH [OF r] by (simp only: n) simp
  next
    case False
    then have r: "pruneLoop policy now snapshots rest deleted m = ((deleted', None), m')"
      using Cons.prems assms(1,2) by (auto simp: Let_def)
    have z: "nat (int (length snapshots) - int (length deleted) - MaxCount policy) = 0"
      using False by simp
    show ?thesis
      using Cons.IH [OF r] by (simp add: z)
  qed
qed

lemma PruneSnapshots_count:
  assumes "MaxAge policy \<le> 0" and "MaxCount policy > 0"
    and "ListSnapshots J m = Inr snapshots"
    and "PruneSnapshots J now policy m = ((deleted, None), m')"
  shows "deleted =
     map info_ID (take (nat (int (length snapshots) - MaxCount policy)) snapshots)"
  using pruneLoop_count [OF assms(1,2), of now snapshots snapshots "[]" m deleted m'] assms(3,4)
  by (simp add: PruneSnapshots_def)

subsection \<open>Creating and loading snapshots\<close>

lemma map_of_update_same: "map_of (AList.update k v al) k = Some v"
  by (simp add: update_conv')

lemma CreateSnapshot_Inr:
  assumes "CreateSnapshot J nowID nowCreated description reason m = (Inr snapshot, m')"
  shows "\<exists>currentState data.
           GetState (mgr_state m) = Inr currentState \<and>
           snapshot =
             \<lparr>snap_ID = generateSnapshotID nowID, snap_CreatedAt = nowCreated,
              Description = description, snap_State = currentState,
              snap_Metadata =
                \<lparr>meta_Version = ''1.0'', CreatedBy = ''provctl'', meta_TriggerReason = reason,
                 ClusterCount = int (length (Clusters currentState)),
                 NodePoolCount = int (length (NodePools currentState)), meta_Tags = []\<rparr>,
              Checksum = calculateChecksum J currentState\<rparr> \<and>
           MarshalIndent_Snapshot J snapshot = Inr data \<and>
           readonly (snapshotDir m) = False \<and>
           m' = m\<lparr>snapshotDir :=
                   (snapshotDir m)\<lparr>files :=
                      AList.update (snap_ID snapshot @ ''.json'') data (files (snapshotDir m))\<rparr>\<rparr>"
  using assms
  by (auto simp: CreateSnapshot_def saveSnapshot_def os_WriteFile_def Let_def
      split: sum.splits if_splits)


lemma CreateSnapshot_exJSON:
  "GetState (mgr_state m) = Inr st \<Longrightarrow> \<not> readonly (snapshotDir m) \<Longrightarrow>
   CreateSnapshot exJSON t t d TriggerManual m =
     (Inr (snapOf st t d),
      m\<lparr>snapshotDir :=
          (snapshotDir m)\<lparr>files :=
             AList.update (generateSnapshotID t @ ''.json'') (SnapshotFile (snapOf st t d))
               (files (snapshotDir m))\<rparr>\<rparr>)"
  by (simp add: CreateSnapshot_def saveSnapshot_def os_WriteFile_def Let_def snapOf_def
      exJSON_def docJSON_def)

lemma GetState_mgrA: "GetState (mgr_state mgrA) = Inr stateA"
  by (simp add: GetState_def mgrA_def zero_StateManager_def)

lemma writable_mgrA: "\<not> readonly (snapshotDir mgrA)"
  by (simp add: mgrA_def)

text \<open>
  For \<open>goJSON\<close> the JSON round trip of a snapshot succeeds exactly when decoding leaves
  the snapshot as it is.
\<close>

lemma roundtrips_goJSON: "roundtrips (goJSON F sz) s \<longleftrightarrow> decoded_Snapshot s = s"
  by (simp add: roundtrips_def goJSON_def)

text \<open>
  With \<open>goJSON\<close>, loading a snapshot that was just created succeeds and returns what
  decoding makes of it; a state that holds no integer behind \<open>interface{}\<close> is decoded to
  itself, and then meets the condition of the amended claim.
\<close>

lemma decoded_dyn_id: "no_integer v \<Longrightarrow> decoded_dyn v = v"
proof (induction v)
  case (DList xs)
  then show ?case by (auto simp: list_all_iff intro: map_idI)
next
  case (DMap m)
  have "map (map_prod (\<lambda>k. k) decoded_dyn) m = m"
  proof (rule map_idI)
    fix kv assume kv: "kv \<in> set m"
    then have "no_integer (snd kv)" using DMap.prems by (force simp: list_all_iff)
    moreover have "snd kv \<in> Basic_BNFs.snds kv" by (cases kv) simp
    ultimately have "decoded_dyn (snd kv) = snd kv" using DMap.IH kv by blast
    then show "map_prod (\<lambda>k. k) decoded_dyn kv = kv" by (cases kv) simp
  qed
  then show ?case by simp
qed simp_all

lemma decoded_values_id:
  "list_all no_integer (map snd m) \<Longrightarrow> decoded_values m = m"
  unfolding decoded_values_def
  by (rule map_idI) (auto simp: list_all_iff decoded_dyn_id)

lemma decoded_WorkerPoolSpec_id:
  "list_all no_integer (interface_values_WorkerPoolSpec x) \<Longrightarrow> decoded_WorkerPoolSpec x = x"
  by (simp add: decoded_WorkerPoolSpec_def interface_values_WorkerPoolSpec_def decoded_values_id)

lemma decoded_ClusterSpec_id:
  assumes "list_all no_integer (interface_values_ClusterSpec x)"
  shows "decoded_ClusterSpec x = x"
proof -
  from assms have a: "list_all no_integer (map snd (cp_Config (ControlPlane x)))"
    and b: "\<forall>p \<in> set (WorkerPools x). list_all no_integer (interface_values_WorkerPoolSpec p)"
    and c: "list_all no_integer (map snd (Config x))"
    by (auto simp: interface_values_ClusterSpec_def list_all_iff)
  have "map decoded_WorkerPoolSpec (WorkerPools x) = WorkerPools x"
    by (rule map_idI) (simp add: b decoded_WorkerPoolSpec_id)
  then show ?thesis
    by (simp add: decoded_ClusterSpec_def decoded_values_id a c)
qed

lemma decoded_State_id:
  assumes "list_all no_integer (interface_values s)"
  shows "decoded_State s = s"
proof -
  from assms have a: "\<forall>kv \<in> set (Clusters s). list_all no_integer (interface_values_ClusterSpec (Spec (snd kv)))"
    and b: "\<forall>kv \<in> set (NodePools s). list_all no_integer (interface_values_WorkerPoolSpec (Spec (snd kv)))"
    and c: "list_all no_integer (map snd (Networks s))"
    and d: "list_all no_integer (map snd (state_Metadata s))"
    by (auto simp: interface_values_def list_all_iff)
  have 1: "map (map_prod (\<lambda>k. k) (\<lambda>c. c\<lparr>Spec := decoded_ClusterSpec (Spec c)\<rparr>)) (Clusters s) = Clusters s"
  proof (rule map_idI)
    fix kv assume "kv \<in> set (Clusters s)"
    then have "decoded_ClusterSpec (Spec (snd kv)) = Spec (snd kv)"
      using a by (simp add: decoded_ClusterSpec_id)
    then show "map_prod (\<lambda>k. k) (\<lambda>c. c\<lparr>Spec := decoded_ClusterSpec (Spec c)\<rparr>) kv = kv"
      by (cases kv) simp
  qed
  have 2: "map (map_prod (\<lambda>k. k) (\<lambda>p. p\<lparr>Spec := decoded_WorkerPoolSpec (Spec p)\<rparr>)) (NodePools s) = NodePools s"
  proof (rule map_idI)
    fix kv assume "kv \<in> set (NodePools s)"
    then have "decoded_WorkerPoolSpec (Spec (snd kv)) = Spec (snd kv)"
      using b by (simp add: decoded_WorkerPoolSpec_id)
    then show "map_prod (\<lambda>k. k) (\<lambda>p. p\<lparr>Spec := decoded_WorkerPoolSpec (Spec p)\<rparr>) kv = kv"
      by (cases kv) simp
  qed
  show ?thesis
    by (simp add: decoded_State_def 1 2 decoded_values_id c d)
qed

lemma LoadSnapshot_goJSON:
  assumes "CreateSnapshot (goJSON F sz) nowID nowCreated description reason m = (Inr snapshot, m')"
  shows "LoadSnapshot (goJSON F sz) m' (snap_ID snapshot) = Inr (decoded_Snapshot snapshot)"
proof -
  from CreateSnapshot_Inr [OF assms] obtain data where
    d: "MarshalIndent_Snapshot (goJSON F sz) snapshot = Inr data" and
    m': "m' = m\<lparr>snapshotDir :=
                   (snapshotDir m)\<lparr>files :=
                      AList.update (snap_ID snapshot @ ''.json'') data (files (snapshotDir m))\<rparr>\<rparr>"
    by auto
  from d have "data = SnapshotFile snapshot" by (simp add: goJSON_def)
  then show ?thesis
    by (simp add: LoadSnapshot_def os_ReadFile_def m' map_of_update_same goJSON_def)
qed

lemma roundtrips_goJSON_no_integer:
  "list_all no_integer (interface_values (snap_State s)) \<Longrightarrow> roundtrips (goJSON F sz) s"
  by (simp add: roundtrips_goJSON decoded_Snapshot_def decoded_State_id)








subsection \<open>Snapshot ids\<close>

lemma generateSnapshotID_same_second:
  "t div 1000000000 = u div 1000000000 \<Longrightarrow> generateSnapshotID t = generateSnapshotID u"
  by (simp add: generateSnapshotID_def Format_20060102_150405_def)

lemma generateSnapshotID_t0: "generateSnapshotID t0 = ''snapshot-20240203-033000''"
  by code_simp

lemma stateB_neq_stateA: "stateB \<noteq> stateA"
  by (simp add: stateA_def stateB_def zero_State_def cluster1_def cluster1_v129_def
      zero_Cluster_def zero_ClusterSpec_def zero_ControlPlaneSpec_def)

text \<open>
  C9: two successful calls of \<open>CreateSnapshot\<close> half a second apart, at 03:30:00.0 and
  03:30:00.5, with the persisted state changed from \<open>stateA\<close> to \<open>stateB\<close> in between.
  Both snapshots get the id \<open>snapshot-20240203-033000\<close>; the second call writes its
  snapshot over the file of the first, so that the directory holds one file and loading
  the id of the first snapshot returns the second, with the other state.
\<close>

theorem CreateSnapshot_overwrites:
  "fst (CreateSnapshot exJSON t0 t0 ''first'' TriggerManual mgrA) =
     Inr (snapOf stateA t0 ''first'') \<and>
   snap_ID (snapOf stateA t0 ''first'') = ''snapshot-20240203-033000'' \<and>
   LoadSnapshot exJSON afterFirst ''snapshot-20240203-033000'' =
     Inr (snapOf stateA t0 ''first'') \<and>
   fst (CreateSnapshot exJSON (t0 + 500000000) (t0 + 500000000) ''second'' TriggerManual mgrB) =
     Inr (snapOf stateB (t0 + 500000000) ''second'') \<and>
   snap_ID (snapOf stateB (t0 + 500000000) ''second'') = ''snapshot-20240203-033000'' \<and>
   LoadSnapshot exJSON
       (snd (CreateSnapshot exJSON (t0 + 500000000) (t0 + 500000000) ''second'' TriggerManual mgrB))
       ''snapshot-20240203-033000'' =
     Inr (snapOf stateB (t0 + 500000000) ''second'') \<and>
   map fst (files (snapshotDir
       (snd (CreateSnapshot exJSON (t0 + 500000000) (t0 + 500000000) ''second'' TriggerManual mgrB)))) =
     [''snapshot-20240203-033000.json''] \<and>
   snap_State (snapOf stateB (t0 + 500000000) ''second'') \<noteq> snap_State (snapOf stateA t0 ''first'')"
proof -
  have id2: "generateSnapshotID (t0 + 500000000) = ''snapshot-20240203-033000''"
    using generateSnapshotID_same_second [of "t0 + 500000000" t0] generateSnapshotID_t0
    by (simp add: t0_def)
  have c1: "CreateSnapshot exJSON t0 t0 ''first'' TriggerManual mgrA =
      (Inr (snapOf stateA t0 ''first''),
       mgrA\<lparr>snapshotDir := \<lparr>files = [(''snapshot-20240203-033000.json'',
                                        SnapshotFile (snapOf stateA t0 ''first''))],
                               readonly = False, unreadable = False\<rparr>\<rparr>)"
    unfolding CreateSnapshot_exJSON [OF GetState_mgrA writable_mgrA]
    by (simp add: mgrA_def generateSnapshotID_t0)
  have a: "afterFirst =
       mgrA\<lparr>snapshotDir := \<lparr>files = [(''snapshot-20240203-033000.json'',
                                        SnapshotFile (snapOf stateA t0 ''first''))],
                               readonly = False, unreadable = False\<rparr>\<rparr>"
    by (simp add: afterFirst_def c1)
  have gB: "GetState (mgr_state mgrB) = Inr stateB"
    by (simp add: mgrB_def a mgrA_def GetState_def zero_StateManager_def)
  have rB: "\<not> readonly (snapshotDir mgrB)"
    by (simp add: mgrB_def a)
  have c2: "CreateSnapshot exJSON (t0 + 500000000) (t0 + 500000000) ''second'' TriggerManual mgrB =
      (Inr (snapOf stateB (t0 + 500000000) ''second''),
       mgrB\<lparr>snapshotDir := \<lparr>files = [(''snapshot-20240203-033000.json'',
                                        SnapshotFile (snapOf stateB (t0 + 500000000) ''second''))],
                               readonly = False, unreadable = False\<rparr>\<rparr>)"
    unfolding CreateSnapshot_exJSON [OF gB rB]
    by (simp add: mgrB_def a id2)
  have l1: "LoadSnapshot exJSON afterFirst ''snapshot-20240203-033000'' =
     Inr (snapOf stateA t0 ''first'')"
    by (simp add: LoadSnapshot_def os_ReadFile_def a exJSON_def docJSON_def)
  have l2: "LoadSnapshot exJSON
       (snd (CreateSnapshot exJSON (t0 + 500000000) (t0 + 500000000) ''second'' TriggerManual mgrB))
       ''snapshot-20240203-033000'' = Inr (snapOf stateB (t0 + 500000000) ''second'')"
    by (simp add: c2) (simp add: LoadSnapshot_def os_ReadFile_def exJSON_def docJSON_def)
  have ne: "snap_State (snapOf stateB (t0 + 500000000) ''second'') \<noteq>
      snap_State (snapOf stateA t0 ''first'')"
    using stateB_neq_stateA by (simp add: snapOf_def)
  have i1: "snap_ID (snapOf stateA t0 ''first'') = ''snapshot-20240203-033000''"
    by (simp add: snapOf_def generateSnapshotID_t0)
  have i2: "snap_ID (snapOf stateB (t0 + 500000000) ''second'') = ''snapshot-20240203-033000''"
    by (simp add: snapOf_def id2)
  show ?thesis
    using l1 l2 ne i1 i2 by (simp add: c1 c2)
qed

subsection \<open>The checksum\<close>

lemma calculateChecksum_length:
  "Marshal_State J S1 = Inr d1 \<Longrightarrow> Marshal_State J S2 = Inr d2 \<Longrightarrow> length d1 = length d2
   \<Longrightarrow> calculateChecksum J S1 = calculateChecksum J S2"
  by (simp add: calculateChecksum_def)

lemma time_marshalable_0: "time_marshalable 0"
  by code_simp

lemma json_string_versions: "length (json_string ''1.28'') = length (json_string ''1.29'')"
  by (simp add: json_string_def escape_char_def)

lemma json_State_same_length: "length (json_State F stateA) = length (json_State F stateB)"
  by (simp add: stateA_def stateB_def zero_State_def cluster1_def cluster1_v129_def
      zero_Cluster_def zero_ClusterSpec_def zero_ControlPlaneSpec_def
      json_State_def json_map_def json_Resource_def json_ClusterSpec_def
      json_ControlPlaneSpec_def json_object_def member_def omitempty_def
      json_string_versions)

lemma Marshal_stateA: "Marshal_State exJSON stateA = Inr (json_State (\<lambda>x. ''0'') stateA)"
  by (simp add: exJSON_def docJSON_def json_Marshal_State_def times_State_def
      times_Resource_def stateA_def zero_State_def cluster1_def zero_Cluster_def
      zero_ResourceMetadata_def zero_ResourceStatus_def time_marshalable_0)

lemma Marshal_stateB: "Marshal_State exJSON stateB = Inr (json_State (\<lambda>x. ''0'') stateB)"
  by (simp add: exJSON_def docJSON_def json_Marshal_State_def times_State_def
      times_Resource_def stateB_def zero_State_def cluster1_v129_def zero_Cluster_def
      zero_ResourceMetadata_def zero_ResourceStatus_def time_marshalable_0)

lemma checksum_stateA_stateB: "calculateChecksum exJSON stateA = calculateChecksum exJSON stateB"
  by (rule calculateChecksum_length [OF Marshal_stateA Marshal_stateB json_State_same_length])

lemma stateA_neq_stateB: "Clusters stateA \<noteq> Clusters stateB"
  by (simp add: stateA_def stateB_def zero_State_def cluster1_def cluster1_v129_def
      zero_Cluster_def zero_ClusterSpec_def zero_ControlPlaneSpec_def)

lemma Load_tampered:
  "LoadSnapshot exJSON tampered ''snapshot-20240203-033000'' =
     Inr ((snapOf stateA t0 ''Snapshot'')\<lparr>snap_State := stateB\<rparr>)"
  by (simp add: LoadSnapshot_def os_ReadFile_def tampered_def generateSnapshotID_t0
      exJSON_def docJSON_def)

lemma GetState_tampered: "GetState (mgr_state tampered) = Inr stateA"
  by (simp add: GetState_def tampered_def zero_StateManager_def)

lemma writable_tampered: "\<not> readonly (snapshotDir tampered)"
  by (simp add: tampered_def)

text \<open>
  C10: the checksum of a state is the length of its JSON text, in hexadecimal, so states
  with texts of the same length share a checksum.  \<open>stateA\<close> and \<open>stateB\<close> differ in the
  control-plane version of their cluster, 1.28 and 1.29, and are encoded to texts of the
  same length.  In the snapshot directory \<open>tampered\<close> the file of the snapshot made of
  \<open>stateA\<close> holds \<open>stateB\<close> in place of \<open>stateA\<close>, with the checksum of \<open>stateA\<close>:
  \<open>RestoreSnapshot\<close> finds the checksum in order, and both the dry run and the restore go
  through, the restore writing \<open>stateB\<close> as the persisted state.
\<close>

theorem calculateChecksum_collision:
  "Clusters stateA \<noteq> Clusters stateB \<and>
   (\<exists>d1 d2. Marshal_State exJSON stateA = Inr d1 \<and> Marshal_State exJSON stateB = Inr d2 \<and>
            length d1 = length d2) \<and>
   calculateChecksum exJSON stateA = calculateChecksum exJSON stateB \<and>
   (\<exists>snapshot.
      LoadSnapshot exJSON tampered ''snapshot-20240203-033000'' = Inr snapshot \<and>
      snap_State snapshot = stateB \<and>
      Checksum snapshot = calculateChecksum exJSON stateA) \<and>
   (\<exists>r. RestoreSnapshot exJSON nowRestored nowID nowCreated tampered
            ''snapshot-20240203-033000'' True = (Inr r, tampered) \<and> DryRun r) \<and>
   (\<exists>r m'. RestoreSnapshot exJSON nowRestored nowID nowCreated tampered
               ''snapshot-20240203-033000'' False = (Inr r, m') \<and>
            Success r \<and> stored (mgr_state m') = stateB)"
proof -
  let ?snap = "(snapOf stateA t0 ''Snapshot'')\<lparr>snap_State := stateB\<rparr>"
  have ok: "calculateChecksum exJSON (snap_State ?snap) = Checksum ?snap"
    using checksum_stateA_stateB by (simp add: snapOf_def)
  have dry: "\<exists>r. RestoreSnapshot exJSON nowRestored nowID nowCreated tampered
            ''snapshot-20240203-033000'' True = (Inr r, tampered) \<and> DryRun r"
    using ok by (simp add: RestoreSnapshot_def Load_tampered GetState_tampered Let_def)
  have "\<exists>backup.
      CreateSnapshot exJSON nowID nowCreated ''Pre-restore backup'' TriggerManual tampered =
        (Inr backup,
         tampered\<lparr>snapshotDir :=
             (snapshotDir tampered)\<lparr>files :=
                AList.update (snap_ID backup @ ''.json'') (SnapshotFile backup)
                  (files (snapshotDir tampered))\<rparr>\<rparr>)"
    by (simp add: CreateSnapshot_def saveSnapshot_def os_WriteFile_def Let_def
        exJSON_def docJSON_def GetState_tampered [unfolded exJSON_def docJSON_def]
        writable_tampered)
  then obtain backup where c:
    "CreateSnapshot exJSON nowID nowCreated ''Pre-restore backup'' TriggerManual tampered =
       (Inr backup,
        tampered\<lparr>snapshotDir :=
            (snapshotDir tampered)\<lparr>files :=
               AList.update (snap_ID backup @ ''.json'') (SnapshotFile backup)
                 (files (snapshotDir tampered))\<rparr>\<rparr>)"
    by blast
  have sv: "SaveState_err (mgr_state tampered) = None"
    by (simp add: tampered_def zero_StateManager_def)
  have real: "\<exists>r m'. RestoreSnapshot exJSON nowRestored nowID nowCreated tampered
               ''snapshot-20240203-033000'' False = (Inr r, m') \<and>
            Success r \<and> stored (mgr_state m') = stateB"
    using ok
    by (simp add: RestoreSnapshot_def Load_tampered GetState_tampered Let_def c SaveState_def sv)
  have load: "\<exists>snapshot.
      LoadSnapshot exJSON tampered ''snapshot-20240203-033000'' = Inr snapshot \<and>
      snap_State snapshot = stateB \<and>
      Checksum snapshot = calculateChecksum exJSON stateA"
    by (simp add: Load_tampered snapOf_def)
  have len: "\<exists>d1 d2. Marshal_State exJSON stateA = Inr d1 \<and> Marshal_State exJSON stateB = Inr d2 \<and>
            length d1 = length d2"
    by (simp add: Marshal_stateA Marshal_stateB json_State_same_length)
  show ?thesis
    using stateA_neq_stateB len checksum_stateA_stateB load dry real by blast
qed

section \<open>Properties of the drift detector\<close>

lemma remediateDrift_fst: "fst (remediateDrift d drift) = remediationError (dd_engine d) drift"
  by (simp add: remediateDrift_def remediationError_def split: option.splits)

lemma remediateDrift_snd:
  "dd_engine (snd (remediateDrift d drift)) = dd_engine d \<and>
   (\<exists>L. logger (snd (remediateDrift d drift)) = logger d @ L \<and>
        filter (\<lambda>l. lvl l = LevelError) L = [] \<and>
        filter (\<lambda>l. msg l = ''remediating drift'') L = [])"
  by (simp add: remediateDrift_def log_def split: option.splits)

text \<open>
  What the loop of \<open>Remediate\<close> leaves in the log: one attempt record for every
  remediatable item, and one failure record for every remediatable item whose remediation
  failed, each in the order of the report.
\<close>

lemma remediateLoop_logs:
  "dd_engine (snd (remediateLoop drifts n d)) = dd_engine d \<and>
   (\<exists>L. logger (snd (remediateLoop drifts n d)) = logger d @ L \<and>
        filter (\<lambda>l. lvl l = LevelError) L =
          map (failureRecord (dd_engine d))
            (filter (\<lambda>x. Remediatable x \<and> remediationError (dd_engine d) x \<noteq> None) drifts) \<and>
        filter (\<lambda>l. msg l = ''remediating drift'') L =
          map attemptRecord (filter Remediatable drifts))"
proof (induction drifts arbitrary: n d)
  case Nil
  then show ?case by simp
next
  case (Cons drift rest)
  show ?case
  proof (cases "Remediatable drift")
    case False
    let ?d1 = "log LevelWarn ''drift not remediatable''
                [(''resource'', LString (rid_Name (drift_Resource drift))),
                 (''type'', LString (DriftType drift))] d"
    have step: "remediateLoop (drift # rest) n d = remediateLoop rest n ?d1"
      using False by simp
    from Cons.IH [of n ?d1] obtain L where
      e: "dd_engine (snd (remediateLoop rest n ?d1)) = dd_engine ?d1" and
      l: "logger (snd (remediateLoop rest n ?d1)) = logger ?d1 @ L" and
      f: "filter (\<lambda>l. lvl l = LevelError) L =
          map (failureRecord (dd_engine ?d1))
            (filter (\<lambda>x. Remediatable x \<and> remediationError (dd_engine ?d1) x \<noteq> None) rest)" and
      a: "filter (\<lambda>l. msg l = ''remediating drift'') L = map attemptRecord (filter Remediatable rest)"
      by blast
    have eng: "dd_engine ?d1 = dd_engine d" by (simp add: log_def)
    show ?thesis
      unfolding step
      apply (rule conjI)
       apply (simp add: e eng)
      apply (rule exI [of _ "[\<lparr>lvl = LevelWarn, msg = ''drift not remediatable'',
                attrs = [(''resource'', LString (rid_Name (drift_Resource drift))),
                 (''type'', LString (DriftType drift))]\<rparr>] @ L"])
      using False f a l eng
      apply (simp add: log_def)
      done
  next
    case True
    let ?d1 = "log LevelInfo ''remediating drift''
                    [(''resource'', LString (rid_Name (drift_Resource drift))),
                     (''type'', LString (DriftType drift)),
                     (''field'', LString (Field drift))] d"
    have eng1: "dd_engine ?d1 = dd_engine d" by (simp add: log_def)
    obtain r d2 where rd: "remediateDrift ?d1 drift = (r, d2)"
      by (cases "remediateDrift ?d1 drift") auto
    have r: "r = remediationError (dd_engine d) drift"
      using remediateDrift_fst [of ?d1 drift] rd eng1 by simp
    from remediateDrift_snd [of ?d1 drift] rd obtain L1 where
      eng2: "dd_engine d2 = dd_engine d" and
      l2: "logger d2 = logger ?d1 @ L1" and
      f2: "filter (\<lambda>l. lvl l = LevelError) L1 = []" and
      a2: "filter (\<lambda>l. msg l = ''remediating drift'') L1 = []"
      using eng1 by auto
    show ?thesis
    proof (cases r)
      case None
      have rn: "remediationError (dd_engine d) drift = None"
        using r None by simp
      have step: "remediateLoop (drift # rest) n d = remediateLoop rest (n + 1) d2"
        using True rd None by (simp add: Let_def)
      from Cons.IH [of "n + 1" d2] obtain L where
        e: "dd_engine (snd (remediateLoop rest (n + 1) d2)) = dd_engine d2" and
        l: "logger (snd (remediateLoop rest (n + 1) d2)) = logger d2 @ L" and
        f: "filter (\<lambda>l. lvl l = LevelError) L =
            map (failureRecord (dd_engine d2))
              (filter (\<lambda>x. Remediatable x \<and> remediationError (dd_engine d2) x \<noteq> None) rest)" and
        a: "filter (\<lambda>l. msg l = ''remediating drift'') L = map attemptRecord (filter Remediatable rest)"
        by blast
      show ?thesis
        unfolding step
        apply (rule conjI)
         apply (simp add: e eng2)
        apply (rule exI [of _ "[attemptRecord drift] @ L1 @ L"])
        using True f a l l2 f2 a2 eng2
        apply (simp add: log_def attemptRecord_def rn)
        done
    next
      case (Some err)
      let ?d3 = "log LevelError ''failed to remediate drift''
                     [(''resource'', LString (rid_Name (drift_Resource drift))),
                      (''error'', LError err)] d2"
      have eng3: "dd_engine ?d3 = dd_engine d" by (simp add: log_def eng2)
      have step: "remediateLoop (drift # rest) n d = remediateLoop rest n ?d3"
        using True rd Some by (simp add: Let_def)
      from Cons.IH [of n ?d3] obtain L where
        e: "dd_engine (snd (remediateLoop rest n ?d3)) = dd_engine ?d3" and
        l: "logger (snd (remediateLoop rest n ?d3)) = logger ?d3 @ L" and
        f: "filter (\<lambda>l. lvl l = LevelError) L =
            map (failureRecord (dd_engine ?d3))
              (filter (\<lambda>x. Remediatable x \<and> remediationError (dd_engine ?d3) x \<noteq> None) rest)" and
        a: "filter (\<lambda>l. msg l = ''remediating drift'') L = map attemptRecord (filter Remediatable rest)"
        by blast
      have re: "remediationError (dd_engine d) drift = Some err"
        using r Some by simp
      have fr: "failureRecord (dd_engine d) drift =
          \<lparr>lvl = LevelError, msg = ''failed to remediate drift'',
           attrs = [(''resource'', LString (rid_Name (drift_Resource drift))),
                    (''error'', LError err)]\<rparr>"
        by (simp add: failureRecord_def re)
      show ?thesis
        unfolding step
        apply (rule conjI)
         apply (simp add: e eng3)
        apply (rule exI [of _ "[attemptRecord drift] @ L1 @ [failureRecord (dd_engine d) drift] @ L"])
        using True f a l l2 f2 a2 eng3
        apply (simp add: log_def attemptRecord_def fr re)
        done
    qed
  qed
qed

text \<open>
  C6, as amended.  \<open>Remediate\<close> is best-effort: it attempts every remediatable item of
  the report, in order, whatever happened to the items before it, and it writes one error
  record to the log, naming the resource and the error, for exactly the remediatable items
  whose remediation failed.  The result it returns is always nil: the failures are told to
  the log, not to the caller.
\<close>

theorem Remediate_best_effort:
  "fst (Remediate d report) = None \<and>
   filter (\<lambda>l. msg l = ''remediating drift'')
       (drop (length (logger d)) (logger (snd (Remediate d report)))) =
     map attemptRecord (filter Remediatable (Drifts report)) \<and>
   filter (\<lambda>l. lvl l = LevelError)
       (drop (length (logger d)) (logger (snd (Remediate d report)))) =
     map (failureRecord (dd_engine d))
       (filter (\<lambda>x. Remediatable x \<and> remediationError (dd_engine d) x \<noteq> None) (Drifts report))"
proof -
  let ?d0 = "log LevelInfo ''starting drift remediation''
                 [(''total_drifts'', LInt (int (length (Drifts report))))] d"
  obtain n d1 where loop: "remediateLoop (Drifts report) 0 ?d0 = (n, d1)"
    by (cases "remediateLoop (Drifts report) 0 ?d0") auto
  have eng0: "dd_engine ?d0 = dd_engine d" by (simp add: log_def)
  from remediateLoop_logs [of "Drifts report" 0 ?d0] loop obtain L where
    l: "logger d1 = logger ?d0 @ L" and
    f: "filter (\<lambda>l. lvl l = LevelError) L =
        map (failureRecord (dd_engine d))
          (filter (\<lambda>x. Remediatable x \<and> remediationError (dd_engine d) x \<noteq> None) (Drifts report))" and
    a: "filter (\<lambda>l. msg l = ''remediating drift'') L =
        map attemptRecord (filter Remediatable (Drifts report))"
    using eng0 by auto
  have R: "Remediate d report =
      (None, log LevelInfo ''drift remediation complete''
                 [(''remediated'', LInt n),
                  (''total'', LInt (int (length (Drifts report))))] d1)"
    by (simp add: Remediate_def Let_def loop)
  show ?thesis
    unfolding R using l f a by (simp add: log_def)
qed

text \<open>
  C6, as stated, fails: for a report whose only item is remediatable and names a provider
  that is not registered, the remediation of the item fails and \<open>Remediate\<close> returns nil, a
  bare success.
\<close>

theorem Remediate_counterexample:
  "fst (remediateDrift awsDetector gcpDrift) = Some (Errorf ''provider gcp not found'') \<and>
   fst (Remediate awsDetector
          \<lparr>DetectedAt = 0, HasDrift = True, Drifts = [gcpDrift],
           Summary = zero_DriftSummary\<lparr>TotalDrifts := 1, HighCount := 1,
                                        RemediableCount := 1\<rparr>\<rparr>) = None"
  by (simp add: remediateDrift_def Remediate_def Let_def awsDetector_def awsEngine_def
      RegisterProvider_def NewEngine_def GetProvider_def awsProvider_def gcpDrift_def
      split: prod.splits)

lemma DetectDrift_no_providers:
  "fst (DetectDrift d now desired) =
     (\<lparr>DetectedAt = now, HasDrift = False, Drifts = [], Summary = zero_DriftSummary\<rparr>, None)"
  by (simp add: DetectDrift_def getAllProviders_def Let_def zero_DriftSummary_def)

text \<open>
  The body of the detection loop, run on the providers registered with the engine, finds
  the version skew of the scenario; \<open>DetectDrift\<close> runs it on the result of
  \<open>getAllProviders\<close>, which is empty.
\<close>

lemma providerLoop_version_skew:
  "fst (providerLoop (zero_State\<lparr>Clusters := [(''cluster-1'', cluster1_v129)]\<rparr>)
          (providers awsEngine) [] awsDetector) =
     [\<lparr>drift_Resource = \<lparr>rid_Provider = ''aws'', rid_Kind = ''Cluster'', rid_ID = ''cluster-1'',
                         rid_Name = ''test-cluster''\<rparr>,
       DriftType = DriftVersionSkew, Field = ''controlPlane.version'',
       Expected = DString ''1.29'', Actual = DString ''1.28'',
       Severity = SeverityHigh, Remediatable = True\<rparr>]"
  by (simp add: awsEngine_def RegisterProvider_def NewEngine_def awsProvider_def Let_def
      zero_State_def cluster1_v129_def cluster1_def zero_Cluster_def zero_ClusterSpec_def
      zero_ControlPlaneSpec_def zero_ResourceMetadata_def)

text \<open>
  C5: the desired state holds \<open>cluster-1\<close> at version 1.29 on the registered provider
  \<open>aws\<close>, which reports \<open>cluster-1\<close> at version 1.28.  The claim expects one drift of type
  \<open>version_skew\<close> and \<open>HasDrift\<close>; \<open>DetectDrift\<close> returns a report without drifts, and
  \<open>HasDrift\<close> is false.
\<close>

theorem DetectDrift_reports_nothing:
  "GetProvider (dd_engine awsDetector) ''aws'' = Some awsProvider \<and>
   fst (DetectDrift awsDetector now (zero_State\<lparr>Clusters := [(''cluster-1'', cluster1_v129)]\<rparr>)) =
     (\<lparr>DetectedAt = now, HasDrift = False, Drifts = [], Summary = zero_DriftSummary\<rparr>, None)"
  by (simp add: DetectDrift_no_providers awsDetector_def awsEngine_def RegisterProvider_def
      NewEngine_def GetProvider_def awsProvider_def)

end
